theory Spec2Isabelle
  imports Main "HOL-Library.Sublist" "HOL-Library.Monad_Syntax"
begin

section \<open>Touchline: \<open>extract_xg_model.py\<close>\<close>

text \<open>
  The script loads a pickled scikit-learn pipeline (a scaler followed by a logistic
  regression), pulls four parameters out of it, prints them as TypeScript constants and,
  when \<^verbatim>\<open>--json\<close> is among the arguments, also dumps them as JSON beside the pickle.

  The embedding follows \<^verbatim>\<open>main\<close> line by line. What the script takes from Python, NumPy
  and the operating system is written out here as far as the script uses it:
  \<^item> floating-point numbers are an abstract type \<open>'f\<close>; their text (\<^verbatim>\<open>float.__repr__\<close>) and
    their class (finite, infinite, NaN) are fields of the record \<open>runtime\<close>;
  \<^item> \<^verbatim>\<open>pickle.load\<close> is a field of \<open>runtime\<close> as well: from the bytes of a file to an
    exception or an object;
  \<^item> text is bytes (UTF-8), so the two non-ASCII characters of the source are three bytes
    each;
  \<^item> every exception of the source is a value; nothing of the script catches one.

  Taken as given: standard output accepts UTF-8, a line ends in one newline byte (POSIX),
  and the file is not changed between the test for its existence and its opening.
\<close>

subsection \<open>Exceptions and how the process ends\<close>

datatype py_error =
    FileNotFoundError | IsADirectoryError | PermissionError | OSError
  | UnpicklingError | TypeError | IndexError | AttributeError | ValueError

text \<open>
  \<open>Returned\<close>: \<^verbatim>\<open>main()\<close> ran to its end. \<open>SystemExit n\<close>: \<^verbatim>\<open>sys.exit(n)\<close>.
  \<open>Uncaught e\<close>: an exception left \<^verbatim>\<open>main()\<close>; the interpreter prints a traceback and the
  exit status is 1.
\<close>

datatype outcome = Returned | SystemExit int | Uncaught py_error

fun exit_status :: "outcome \<Rightarrow> int" where
  "exit_status Returned = 0"
| "exit_status (SystemExit n) = n"
| "exit_status (Uncaught e) = 1"

definition and_then :: "py_error + 'a \<Rightarrow> ('a \<Rightarrow> py_error + 'b) \<Rightarrow> py_error + 'b" where
  "and_then m f = (case m of Inl e \<Rightarrow> Inl e | Inr x \<Rightarrow> f x)"

subsection \<open>Python objects\<close>

text \<open>
  A NumPy array (or NumPy scalar) of floats: \<open>NdScalar\<close> is a scalar or 0-dimensional
  array, \<open>NdArr\<close> an array given by its sub-arrays along the first axis.
\<close>

datatype 'f ndarray = NdScalar 'f | NdArr "'f ndarray list"

text \<open>
  The objects a pickle may hold, as far as the script can tell them apart:
  \<open>PySeq\<close> is anything indexed by position (a list, a tuple, a scikit-learn
  \<^verbatim>\<open>Pipeline\<close>, whose \<^verbatim>\<open>__getitem__\<close> returns the estimator of a step);
  \<open>PyInst\<close> is an instance given by its attributes (an estimator).
\<close>

datatype 'f pyobj =
    PyNone
  | PyFloat 'f
  | PySeq "'f pyobj list"
  | PyNd "'f ndarray"
  | PyInst "(string \<times> 'f pyobj) list"

text \<open>Plain Python data, what \<^verbatim>\<open>tolist()\<close> and \<^verbatim>\<open>float()\<close> return.\<close>

datatype 'f pyval = VFloat 'f | VList "'f pyval list"

text \<open>\<^verbatim>\<open>obj[i]\<close> for a literal index \<open>i \<ge> 0\<close>.\<close>

fun getitem :: "'f pyobj \<Rightarrow> nat \<Rightarrow> py_error + 'f pyobj" where
  "getitem (PySeq xs) i = (if i < length xs then Inr (xs ! i) else Inl IndexError)"
| "getitem (PyNd (NdArr xs)) i = (if i < length xs then Inr (PyNd (xs ! i)) else Inl IndexError)"
| "getitem (PyNd (NdScalar x)) i = Inl IndexError"
| "getitem PyNone i = Inl TypeError"
| "getitem (PyFloat x) i = Inl TypeError"
| "getitem (PyInst attrs) i = Inl TypeError"

text \<open>\<^verbatim>\<open>obj.name\<close> for one of the four fitted attributes the script reads.\<close>

fun getattr :: "'f pyobj \<Rightarrow> string \<Rightarrow> py_error + 'f pyobj" where
  "getattr (PyInst attrs) name =
     (case map_of attrs name of None \<Rightarrow> Inl AttributeError | Some v \<Rightarrow> Inr v)"
| "getattr obj name = Inl AttributeError"

fun nd_tolist :: "'f ndarray \<Rightarrow> 'f pyval" where
  "nd_tolist (NdScalar x) = VFloat x"
| "nd_tolist (NdArr xs) = VList (map nd_tolist xs)"

text \<open>
  \<^verbatim>\<open>obj.tolist()\<close>: only arrays have the method. An instance that has an attribute of
  that name does not hold a callable there.
\<close>

fun tolist :: "'f pyobj \<Rightarrow> py_error + 'f pyval" where
  "tolist (PyNd a) = Inr (nd_tolist a)"
| "tolist (PyInst attrs) =
     (case map_of attrs ''tolist'' of None \<Rightarrow> Inl AttributeError | Some v \<Rightarrow> Inl TypeError)"
| "tolist obj = Inl AttributeError"

text \<open>
  The single element of an array of size 1, if it is one. NumPy converts such an array
  to a Python scalar (with a deprecation warning when it has a dimension).
\<close>

fun nd_item :: "'f ndarray \<Rightarrow> 'f option" where
  "nd_item (NdScalar x) = Some x"
| "nd_item (NdArr [a]) = nd_item a"
| "nd_item (NdArr xs) = None"

text \<open>\<^verbatim>\<open>float(obj)\<close>.\<close>

fun py_float :: "'f pyobj \<Rightarrow> py_error + 'f" where
  "py_float (PyFloat x) = Inr x"
| "py_float (PyNd a) = (case nd_item a of None \<Rightarrow> Inl TypeError | Some x \<Rightarrow> Inr x)"
| "py_float obj = Inl TypeError"

subsection \<open>The extracted parameters\<close>

text \<open>The dict literal of lines 31 to 36: four fixed keys.\<close>

record 'f params =
  scaler_mean :: "'f pyval"
  scaler_scale :: "'f pyval"
  lr_coef :: "'f pyval"
  lr_intercept :: "'f"

text \<open>The items of the dict, in insertion order.\<close>

definition items :: "'f params \<Rightarrow> (string \<times> 'f pyval) list" where
  "items p =
     [(''scaler_mean'', scaler_mean p),
      (''scaler_scale'', scaler_scale p),
      (''lr_coef'', lr_coef p),
      (''lr_intercept'', VFloat (lr_intercept p))]"

text \<open>
  Lines 28 to 36: \<^verbatim>\<open>scaler = model[0]\<close>, \<^verbatim>\<open>lr = model[1]\<close>, then the four values in
  the order the dict literal evaluates them.
\<close>

definition extract_params :: "'f pyobj \<Rightarrow> py_error + 'f params" where
  "extract_params model =
     and_then (getitem model 0) (\<lambda>scaler.
     and_then (getitem model 1) (\<lambda>lr.
     and_then (and_then (getattr scaler ''mean_'') tolist) (\<lambda>m.
     and_then (and_then (getattr scaler ''scale_'') tolist) (\<lambda>s.
     and_then (and_then (and_then (getattr lr ''coef_'') (\<lambda>c. getitem c 0)) tolist) (\<lambda>c.
     and_then (and_then (and_then (getattr lr ''intercept_'') (\<lambda>b. getitem b 0)) py_float) (\<lambda>b.
     Inr \<lparr>scaler_mean = m, scaler_scale = s, lr_coef = c, lr_intercept = b\<rparr>))))))"

subsection \<open>The interpreter and the operating system\<close>

datatype float_class = Finite | PosInf | NegInf | NaN

text \<open>
  What the script takes as given: \<open>float_repr\<close> is \<^verbatim>\<open>float.__repr__\<close>, \<open>float_kind\<close>
  tells the values \<^verbatim>\<open>json\<close> spells differently, \<open>pickle_load\<close> is \<^verbatim>\<open>pickle.load\<close> on the
  bytes of a file.
\<close>

record 'f runtime =
  float_repr :: "'f \<Rightarrow> string"
  float_kind :: "'f \<Rightarrow> float_class"
  pickle_load :: "string \<Rightarrow> py_error + 'f pyobj"

text \<open>
  A path is the list of its components, \<^verbatim>\<open>str(path)\<close> joins them with a slash (POSIX)
  and the path with no component is the current directory.
\<close>

type_synonym path = "string list"

fun join :: "string \<Rightarrow> string list \<Rightarrow> string" where
  "join sep [] = []"
| "join sep [x] = x"
| "join sep (x # y # ys) = x @ sep @ join sep (y # ys)"

definition str_path :: "path \<Rightarrow> string" where
  "str_path p = (if p = [] then ''.'' else join ''/'' p)"

definition parent :: "path \<Rightarrow> path" where
  "parent p = butlast p"

definition joinpath :: "path \<Rightarrow> string \<Rightarrow> path" where
  "joinpath d name = d @ [name]"

text \<open>\<^verbatim>\<open>Path.with_name\<close> raises \<^verbatim>\<open>ValueError\<close> on a path that has no name.\<close>

definition with_name :: "path \<Rightarrow> string \<Rightarrow> py_error + path" where
  "with_name p name = (if p = [] then Inl ValueError else Inr (butlast p @ [name]))"

text \<open>
  The state the script acts on. \<open>may_write p\<close>: the system lets the process create or
  truncate a file at \<open>p\<close>. \<open>capacity\<close>: the number of bytes that can still be written
  (\<open>None\<close>: no limit). A stream is the list of the texts written to it, one per call
  of \<^verbatim>\<open>print\<close>. Line ends are a single newline byte.
\<close>

datatype node = Dir | File string

record world =
  files :: "path \<Rightarrow> node option"
  may_read :: "path \<Rightarrow> bool"
  may_write :: "path \<Rightarrow> bool"
  capacity :: "nat option"
  stdout :: "string list"
  stderr :: "string list"

definition newline :: char where
  "newline = CHR 0x0A"

definition dquote :: char where
  "dquote = CHR 0x22"

text \<open>U+2500 and U+2192 in UTF-8.\<close>

definition box_dash :: string where
  "box_dash = [CHR 0xE2, CHR 0x94, CHR 0x80]"

definition arrow :: string where
  "arrow = [CHR 0xE2, CHR 0x86, CHR 0x92]"

definition print_stdout :: "string \<Rightarrow> world \<Rightarrow> world" where
  "print_stdout text w = w\<lparr>stdout := stdout w @ [text @ [newline]]\<rparr>"

definition print_stderr :: "string \<Rightarrow> world \<Rightarrow> world" where
  "print_stderr text w = w\<lparr>stderr := stderr w @ [text @ [newline]]\<rparr>"

definition path_exists :: "world \<Rightarrow> path \<Rightarrow> bool" where
  "path_exists w p = (files w p \<noteq> None)"

text \<open>\<^verbatim>\<open>open(p, "rb")\<close> and reading the file to its end.\<close>

definition open_rb :: "world \<Rightarrow> path \<Rightarrow> py_error + string" where
  "open_rb w p =
     (case files w p of
        None \<Rightarrow> Inl FileNotFoundError
      | Some Dir \<Rightarrow> Inl IsADirectoryError
      | Some (File bytes) \<Rightarrow> if may_read w p then Inr bytes else Inl PermissionError)"

text \<open>\<^verbatim>\<open>open(p, "w")\<close>: the file is created or truncated.\<close>

definition open_w :: "world \<Rightarrow> path \<Rightarrow> py_error + world" where
  "open_w w p =
     (case files w p of
        Some Dir \<Rightarrow> Inl IsADirectoryError
      | _ \<Rightarrow> if may_write w p then Inr (w\<lparr>files := (files w)(p \<mapsto> File [])\<rparr>)
             else Inl PermissionError)"

text \<open>
  Writing \<open>text\<close> to the open file and closing it. When the text does not fit, the
  file keeps what fitted and \<^verbatim>\<open>OSError\<close> is raised.
\<close>

definition write_file :: "world \<Rightarrow> path \<Rightarrow> string \<Rightarrow> py_error option \<times> world" where
  "write_file w p text =
     (case capacity w of
        None \<Rightarrow> (None, w\<lparr>files := (files w)(p \<mapsto> File text)\<rparr>)
      | Some n \<Rightarrow>
          if length text \<le> n
          then (None, w\<lparr>files := (files w)(p \<mapsto> File text), capacity := Some (n - length text)\<rparr>)
          else (Some OSError, w\<lparr>files := (files w)(p \<mapsto> File (take n text)), capacity := Some 0\<rparr>))"

subsection \<open>Text of values\<close>

text \<open>
  \<^verbatim>\<open>str\<close> of a float or of a list, as an f-string inserts it: a list is its elements'
  \<^verbatim>\<open>repr\<close> between brackets, separated by a comma and a space.
\<close>

fun py_str :: "'f runtime \<Rightarrow> 'f pyval \<Rightarrow> string" where
  "py_str rt (VFloat x) = float_repr rt x"
| "py_str rt (VList xs) = ''['' @ join '', '' (map (py_str rt) xs) @ '']''"

text \<open>The float encoder of \<^verbatim>\<open>json\<close> (\<^verbatim>\<open>allow_nan\<close> is left at its default).\<close>

definition floatstr :: "'f runtime \<Rightarrow> 'f \<Rightarrow> string" where
  "floatstr rt x =
     (case float_kind rt x of
        NaN \<Rightarrow> ''NaN''
      | PosInf \<Rightarrow> ''Infinity''
      | NegInf \<Rightarrow> ''-Infinity''
      | Finite \<Rightarrow> float_repr rt x)"

text \<open>A newline and the indentation of nesting level \<open>n\<close>, for \<^verbatim>\<open>indent=2\<close>.\<close>

definition newline_indent :: "nat \<Rightarrow> string" where
  "newline_indent n = newline # replicate (2 * n) CHR '' ''"

text \<open>
  \<^verbatim>\<open>json\<close>'s encoder with an indent, on a value at nesting level \<open>n\<close>: an empty list is
  \<^verbatim>\<open>[]\<close>, any other list has one element per line.
\<close>

fun json_value :: "'f runtime \<Rightarrow> nat \<Rightarrow> 'f pyval \<Rightarrow> string" where
  "json_value rt n (VFloat x) = floatstr rt x"
| "json_value rt n (VList xs) =
     (if xs = [] then ''[]''
      else ''['' @ newline_indent (Suc n)
        @ join ('','' @ newline_indent (Suc n)) (map (json_value rt (Suc n)) xs)
        @ newline_indent n @ '']'')"

text \<open>A key of the dict. The four keys are ASCII identifiers: nothing to escape.\<close>

definition json_key :: "string \<Rightarrow> string" where
  "json_key k = dquote # k @ [dquote]"

definition json_dict :: "'f runtime \<Rightarrow> nat \<Rightarrow> (string \<times> 'f pyval) list \<Rightarrow> string" where
  "json_dict rt n kvs =
     (if kvs = [] then ''{}''
      else ''{'' @ newline_indent (Suc n)
        @ join ('','' @ newline_indent (Suc n))
            (map (\<lambda>(k, v). json_key k @ '': '' @ json_value rt (Suc n) v) kvs)
        @ newline_indent n @ ''}'')"

text \<open>\<^verbatim>\<open>json.dump(params, f, indent=2)\<close>: the text written.\<close>

definition json_dump :: "'f runtime \<Rightarrow> 'f params \<Rightarrow> string" where
  "json_dump rt p = json_dict rt 0 (items p)"

subsection \<open>The script\<close>

text \<open>Line 16. \<open>script\<close> is \<^verbatim>\<open>__file__\<close>, the path of the script.\<close>

definition PKL_PATH :: "path \<Rightarrow> path" where
  "PKL_PATH script = joinpath (parent script) ''xg_model.pkl''"

definition missing_message :: "path \<Rightarrow> string" where
  "missing_message p =
     ''Error: '' @ str_path p @ '' not found. Train the model first (see xGandShotmap.ipynb).''"

definition banner :: string where
  "banner = ''// '' @ box_dash @ box_dash @ '' Paste these into src/utils/xgModel.ts ''
     @ box_dash @ box_dash"

definition wrote_message :: "path \<Rightarrow> string" where
  "wrote_message p = newline # ''Also wrote '' @ arrow @ '' '' @ str_path p"

text \<open>Lines 24 and 25.\<close>

definition load_model :: "'f runtime \<Rightarrow> world \<Rightarrow> path \<Rightarrow> py_error + 'f pyobj" where
  "load_model rt w p = and_then (open_rb w p) (pickle_load rt)"

text \<open>
  Lines 19 to 48. \<open>argv\<close> is \<^verbatim>\<open>sys.argv\<close>, the name of the script included. The result is
  how the process ends and the state it leaves.
\<close>

definition main :: "'f runtime \<Rightarrow> path \<Rightarrow> string list \<Rightarrow> world \<Rightarrow> outcome \<times> world" where
  "main rt script argv w =
     (if \<not> path_exists w (PKL_PATH script) then
        (SystemExit 1, print_stderr (missing_message (PKL_PATH script)) w)
      else
        case load_model rt w (PKL_PATH script) of
          Inl e \<Rightarrow> (Uncaught e, w)
        | Inr model \<Rightarrow>
           (case extract_params model of
              Inl e \<Rightarrow> (Uncaught e, w)
            | Inr params \<Rightarrow>
               let w1 = print_stdout banner w;
                   w2 = print_stdout (''let SCALER_MEAN  = '' @ py_str rt (scaler_mean params) @ '';'') w1;
                   w3 = print_stdout (''let SCALER_SCALE = '' @ py_str rt (scaler_scale params) @ '';'') w2;
                   w4 = print_stdout (''let LR_COEF      = '' @ py_str rt (lr_coef params) @ '';'') w3;
                   w5 = print_stdout (''let LR_INTERCEPT  = '' @ float_repr rt (lr_intercept params) @ '';'') w4
               in
                 if ''--json'' \<in> set argv then
                   (case with_name (PKL_PATH script) ''xg_model_params.json'' of
                      Inl e \<Rightarrow> (Uncaught e, w5)
                    | Inr json_path \<Rightarrow>
                       (case open_w w5 json_path of
                          Inl e \<Rightarrow> (Uncaught e, w5)
                        | Inr w6 \<Rightarrow>
                           (case write_file w6 json_path (json_dump rt params) of
                              (Some e, w7) \<Rightarrow> (Uncaught e, w7)
                            | (None, w7) \<Rightarrow>
                                (Returned, print_stderr (wrote_message json_path) w7))))
                 else (Returned, w5)))"

subsection \<open>The trained pipeline of the specification\<close>

text \<open>
  The data of a trained pipeline: per-feature means and scales of the scaler, the
  coefficient matrix of the classifier (one row per decision function, a binary
  classifier has one) and its intercepts (one per row).
\<close>

record 'f pipeline =
  means :: "'f list"
  scales :: "'f list"
  coefs :: "'f list list"
  intercepts :: "'f list"

text \<open>One-dimensional and two-dimensional arrays.\<close>

definition vector :: "'f list \<Rightarrow> 'f pyobj" where
  "vector xs = PyNd (NdArr (map NdScalar xs))"

definition matrix :: "'f list list \<Rightarrow> 'f pyobj" where
  "matrix rows = PyNd (NdArr (map (\<lambda>r. NdArr (map NdScalar r)) rows))"

text \<open>The attributes of the two stages of an object that is a sequence of two instances.\<close>

fun two_stages :: "'f pyobj \<Rightarrow> ((string \<times> 'f pyobj) list \<times> (string \<times> 'f pyobj) list) option" where
  "two_stages (PySeq [PyInst scaler, PyInst lr]) = Some (scaler, lr)"
| "two_stages model = None"

text \<open>
  The object is a two-stage pipeline whose stages hold the data of \<open>p\<close> in the
  attributes \<^verbatim>\<open>mean_\<close>, \<^verbatim>\<open>scale_\<close>, \<^verbatim>\<open>coef_\<close> and \<^verbatim>\<open>intercept_\<close> (among others).
\<close>

definition represents :: "'f pyobj \<Rightarrow> 'f pipeline \<Rightarrow> bool" where
  "represents model p =
     (case two_stages model of
        Some (scaler, lr) \<Rightarrow>
          map_of scaler ''mean_'' = Some (vector (means p)) \<and>
          map_of scaler ''scale_'' = Some (vector (scales p)) \<and>
          map_of lr ''coef_'' = Some (matrix (coefs p)) \<and>
          map_of lr ''intercept_'' = Some (vector (intercepts p))
      | None \<Rightarrow> False)"

text \<open>
  A pipeline with \<open>k\<close> features: the vectors of the scaler and every coefficient row
  have length \<open>k\<close>, there is at least one row, and one intercept per row.
\<close>

definition well_formed :: "nat \<Rightarrow> 'f pipeline \<Rightarrow> bool" where
  "well_formed k p =
     (length (means p) = k \<and> length (scales p) = k \<and> coefs p \<noteq> [] \<and>
      list_all (\<lambda>r. length r = k) (coefs p) \<and>
      length (intercepts p) = length (coefs p))"

text \<open>
  The file at the fixed path is present and readable, and unpickles to an object that
  represents \<open>p\<close>.
\<close>

definition holds_pipeline :: "'f runtime \<Rightarrow> path \<Rightarrow> world \<Rightarrow> 'f pipeline \<Rightarrow> bool" where
  "holds_pipeline rt script w p =
     (case files w (PKL_PATH script) of
        Some (File bytes) \<Rightarrow>
          may_read w (PKL_PATH script) \<and>
          (case pickle_load rt bytes of Inr model \<Rightarrow> represents model p | Inl e \<Rightarrow> False)
      | _ \<Rightarrow> False)"

text \<open>The parameters the script is to extract from \<open>p\<close>.\<close>

definition params_of :: "'f pipeline \<Rightarrow> 'f params" where
  "params_of p =
     \<lparr>scaler_mean = VList (map VFloat (means p)),
      scaler_scale = VList (map VFloat (scales p)),
      lr_coef = VList (map VFloat (hd (coefs p))),
      lr_intercept = hd (intercepts p)\<rparr>"

text \<open>The five lines of standard output, for given parameters.\<close>

definition report :: "'f runtime \<Rightarrow> 'f params \<Rightarrow> string list" where
  "report rt ps =
     [banner @ [newline],
      ''let SCALER_MEAN  = '' @ py_str rt (scaler_mean ps) @ '';'' @ [newline],
      ''let SCALER_SCALE = '' @ py_str rt (scaler_scale ps) @ '';'' @ [newline],
      ''let LR_COEF      = '' @ py_str rt (lr_coef ps) @ '';'' @ [newline],
      ''let LR_INTERCEPT  = '' @ float_repr rt (lr_intercept ps) @ '';'' @ [newline]]"

text \<open>The path of the JSON file.\<close>

definition json_path_of :: "path \<Rightarrow> path" where
  "json_path_of script = joinpath (parent script) ''xg_model_params.json''"

text \<open>The floats of \<open>p\<close> that the script prints.\<close>

definition printed_floats :: "'f pipeline \<Rightarrow> 'f set" where
  "printed_floats p =
     set (means p) \<union> set (scales p) \<union> set (hd (coefs p)) \<union> {hd (intercepts p)}"

subsection \<open>Reading the output back\<close>

text \<open>
  A reader of the two outputs, for the round trip: it takes the text of a number to be
  a maximal run of characters other than a comma, a closing bracket, a semicolon, a
  space and a newline, and leaves the reading of one number to \<open>parse\<close>.
\<close>

definition delimiter :: "char \<Rightarrow> bool" where
  "delimiter c = (c = CHR '','' \<or> c = CHR '']'' \<or> c = CHR '';'' \<or> c = CHR '' '' \<or> c = newline)"

definition token :: "string \<Rightarrow> bool" where
  "token t = (t \<noteq> [] \<and> list_all (\<lambda>c. \<not> delimiter c) t)"

fun strip_prefix :: "string \<Rightarrow> string \<Rightarrow> string option" where
  "strip_prefix [] s = Some s"
| "strip_prefix (c # p) [] = None"
| "strip_prefix (c # p) (d # s) = (if c = d then strip_prefix p s else None)"

text \<open>
  The items of an array up to its closing bracket, and the text after the bracket;
  \<open>cur\<close> is the item being read.
\<close>

fun scan_items :: "string \<Rightarrow> string \<Rightarrow> (string list \<times> string) option" where
  "scan_items cur [] = None"
| "scan_items cur (c # cs) =
     (if c = CHR '']'' then Some (if cur = [] then [] else [cur], cs)
      else if c = CHR '','' then
        (case scan_items [] cs of
           None \<Rightarrow> None
         | Some (ts, rest) \<Rightarrow> Some (cur # ts, rest))
      else if c = CHR '' '' \<or> c = newline then scan_items cur cs
      else scan_items (cur @ [c]) cs)"

definition decode_array :: "(string \<Rightarrow> 'f option) \<Rightarrow> string \<Rightarrow> ('f list \<times> string) option" where
  "decode_array parse s =
     do {
       body \<leftarrow> strip_prefix ''['' s;
       (ts, rest) \<leftarrow> scan_items [] body;
       xs \<leftarrow> those (map parse ts);
       Some (xs, rest)
     }"

definition decode_number :: "(string \<Rightarrow> 'f option) \<Rightarrow> string \<Rightarrow> 'f option" where
  "decode_number parse s = parse (takeWhile (\<lambda>c. \<not> delimiter c) s)"

text \<open>An array, or a number, after a fixed text.\<close>

definition array_after ::
  "(string \<Rightarrow> 'f option) \<Rightarrow> string \<Rightarrow> string \<Rightarrow> ('f list \<times> string) option" where
  "array_after parse pre s = do { r \<leftarrow> strip_prefix pre s; decode_array parse r }"

definition number_after :: "(string \<Rightarrow> 'f option) \<Rightarrow> string \<Rightarrow> string \<Rightarrow> 'f option" where
  "number_after parse pre s = do { r \<leftarrow> strip_prefix pre s; decode_number parse r }"

text \<open>
  The texts of the elements of an array literal that follows a fixed text, with what
  follows the closing bracket; and their number. There is none when the text after
  \<open>pre\<close> is not a bracketed array.
\<close>

definition array_items :: "string \<Rightarrow> string \<Rightarrow> (string list \<times> string) option" where
  "array_items pre s =
     do { r \<leftarrow> strip_prefix pre s; body \<leftarrow> strip_prefix ''['' r; scan_items [] body }"

definition element_count :: "string \<Rightarrow> string \<Rightarrow> nat option" where
  "element_count pre s = map_option (\<lambda>(ts, rest). length ts) (array_items pre s)"

text \<open>The four values of the five lines of standard output.\<close>

definition decode_stdout ::
  "(string \<Rightarrow> 'f option) \<Rightarrow> string list \<Rightarrow> ('f list \<times> 'f list \<times> 'f list \<times> 'f) option" where
  "decode_stdout parse ls =
     (case ls of
        [l0, l1, l2, l3, l4] \<Rightarrow>
          do {
            (m, t1) \<leftarrow> array_after parse ''let SCALER_MEAN  = '' l1;
            (s, t2) \<leftarrow> array_after parse ''let SCALER_SCALE = '' l2;
            (c, t3) \<leftarrow> array_after parse ''let LR_COEF      = '' l3;
            b \<leftarrow> number_after parse ''let LR_INTERCEPT  = '' l4;
            Some (m, s, c, b)
          }
      | _ \<Rightarrow> None)"

text \<open>The four values of the JSON document.\<close>

definition field_start :: "string \<Rightarrow> string" where
  "field_start k = newline_indent 1 @ json_key k @ '': ''"

definition decode_json ::
  "(string \<Rightarrow> 'f option) \<Rightarrow> string \<Rightarrow> ('f list \<times> 'f list \<times> 'f list \<times> 'f) option" where
  "decode_json parse text =
     do {
       (m, t1) \<leftarrow> array_after parse (''{'' @ field_start ''scaler_mean'') text;
       (s, t2) \<leftarrow> array_after parse ('','' @ field_start ''scaler_scale'') t1;
       (c, t3) \<leftarrow> array_after parse ('','' @ field_start ''lr_coef'') t2;
       b \<leftarrow> number_after parse ('','' @ field_start ''lr_intercept'') t3;
       Some (m, s, c, b)
     }"

text \<open>
  \<open>parse\<close> reads the text of \<open>x\<close> back as \<open>x\<close>, in the spelling of \<^verbatim>\<open>float.__repr__\<close> and
  in that of \<^verbatim>\<open>json\<close>, and the text holds no delimiter.
\<close>

definition reads_back :: "'f runtime \<Rightarrow> (string \<Rightarrow> 'f option) \<Rightarrow> 'f \<Rightarrow> bool" where
  "reads_back rt parse x =
     (token (float_repr rt x) \<and> parse (float_repr rt x) = Some x \<and>
      parse (floatstr rt x) = Some x)"

subsection \<open>Objects the script accepts\<close>

text \<open>
  The attributes of the first two elements of a sequence when both are instances,
  whatever follows them.
\<close>

fun first_two_stages ::
  "'f pyobj \<Rightarrow> ((string \<times> 'f pyobj) list \<times> (string \<times> 'f pyobj) list) option" where
  "first_two_stages (PySeq (PyInst scaler # PyInst lr # others)) = Some (scaler, lr)"
| "first_two_stages model = None"

definition has_attributes :: "(string \<times> 'f pyobj) list \<times> (string \<times> 'f pyobj) list \<Rightarrow> bool" where
  "has_attributes st =
     (map_of (fst st) ''mean_'' \<noteq> None \<and> map_of (fst st) ''scale_'' \<noteq> None \<and>
      map_of (snd st) ''coef_'' \<noteq> None \<and> map_of (snd st) ''intercept_'' \<noteq> None)"

text \<open>
  The structure the specification expects: exactly two stages, exposing the four
  attributes.
\<close>

definition expected_structure :: "'f pyobj \<Rightarrow> bool" where
  "expected_structure model =
     (case two_stages model of None \<Rightarrow> False | Some st \<Rightarrow> has_attributes st)"

text \<open>What the script needs at the least: two leading stages exposing the four attributes.\<close>

definition leading_structure :: "'f pyobj \<Rightarrow> bool" where
  "leading_structure model =
     (case first_two_stages model of None \<Rightarrow> False | Some st \<Rightarrow> has_attributes st)"

text \<open>
  The file at the fixed path exists and is a directory, or cannot be read, or does not
  unpickle, or unpickles to an object without the leading structure.
\<close>

definition malformed :: "'f runtime \<Rightarrow> path \<Rightarrow> world \<Rightarrow> bool" where
  "malformed rt script w =
     (case files w (PKL_PATH script) of
        None \<Rightarrow> False
      | Some Dir \<Rightarrow> True
      | Some (File bytes) \<Rightarrow>
          (if may_read w (PKL_PATH script) then
             (case pickle_load rt bytes of
                Inl e \<Rightarrow> True
              | Inr model \<Rightarrow> \<not> leading_structure model)
           else True))"

subsection \<open>Writing the JSON file\<close>

text \<open>
  The file at \<open>p\<close> can be opened for writing and \<open>text\<close> fits: the conditions under
  which \<open>open_w\<close> and \<open>write_file\<close> raise nothing.
\<close>

definition can_write :: "world \<Rightarrow> path \<Rightarrow> string \<Rightarrow> bool" where
  "can_write w p text =
     (files w p \<noteq> Some Dir \<and> may_write w p \<and>
      (case capacity w of None \<Rightarrow> True | Some n \<Rightarrow> length text \<le> n))"

subsection \<open>A concrete run\<close>

text \<open>
  The example of the specification: three features, means 0.1, 0.2, 0.3, scales 1.0,
  1.1, 1.2, coefficients 0.5, -0.3, 0.2 and intercept -1.4. In this instance a float is
  given by its shortest decimal text, which is what \<^verbatim>\<open>float.__repr__\<close> returns for it.
\<close>

definition example_pipeline :: "string pipeline" where
  "example_pipeline =
     \<lparr>means = [''0.1'', ''0.2'', ''0.3''],
      scales = [''1.0'', ''1.1'', ''1.2''],
      coefs = [[''0.5'', ''-0.3'', ''0.2'']],
      intercepts = [''-1.4'']\<rparr>"

definition example_model :: "string pyobj" where
  "example_model =
     PySeq
       [PyInst [(''with_mean'', PyNone),
                (''mean_'', vector (means example_pipeline)),
                (''scale_'', vector (scales example_pipeline))],
        PyInst [(''coef_'', matrix (coefs example_pipeline)),
                (''intercept_'', vector (intercepts example_pipeline))]]"

text \<open>The same stages followed by a third element.\<close>

definition three_stage_model :: "string pyobj" where
  "three_stage_model =
     PySeq
       [PyInst [(''mean_'', vector (means example_pipeline)),
                (''scale_'', vector (scales example_pipeline))],
        PyInst [(''coef_'', matrix (coefs example_pipeline)),
                (''intercept_'', vector (intercepts example_pipeline))],
        PyNone]"

text \<open>A classifier of three classes over the same features, and the object holding it.\<close>

definition multiclass_pipeline :: "string pipeline" where
  "multiclass_pipeline =
     \<lparr>means = [''0.1'', ''0.2'', ''0.3''],
      scales = [''1.0'', ''1.1'', ''1.2''],
      coefs = [[''0.5'', ''-0.3'', ''0.2''], [''0.7'', ''0.1'', ''-0.9''], [''-1.2'', ''0.2'', ''0.7'']],
      intercepts = [''-1.4'', ''0.3'', ''1.1'']\<rparr>"

definition multiclass_model :: "string pyobj" where
  "multiclass_model =
     PySeq
       [PyInst [(''mean_'', vector (means multiclass_pipeline)),
                (''scale_'', vector (scales multiclass_pipeline))],
        PyInst [(''coef_'', matrix (coefs multiclass_pipeline)),
                (''intercept_'', vector (intercepts multiclass_pipeline))]]"

text \<open>A pipeline that has lost its classifier.\<close>

definition one_stage_model :: "string pyobj" where
  "one_stage_model =
     PySeq
       [PyInst [(''mean_'', vector (means example_pipeline)),
                (''scale_'', vector (scales example_pipeline))]]"

text \<open>
  A runtime in which the bytes \<^verbatim>\<open>P\<close> unpickle to the example, \<^verbatim>\<open>T\<close> to the object of
  three stages, \<^verbatim>\<open>S\<close> to the object of one stage, and nothing else unpickles.
\<close>

definition example_runtime :: "string runtime" where
  "example_runtime =
     \<lparr>float_repr = (\<lambda>x. x),
      float_kind = (\<lambda>x. Finite),
      pickle_load = (\<lambda>bytes.
        if bytes = ''P'' then Inr example_model
        else if bytes = ''T'' then Inr three_stage_model
        else if bytes = ''S'' then Inr one_stage_model
        else Inl UnpicklingError)\<rparr>"

definition example_script :: path where
  "example_script = [''scripts'', ''extract_xg_model.py'']"

text \<open>A state in which the directory of the script holds a file with the given bytes.\<close>

definition world_with :: "string \<Rightarrow> world" where
  "world_with bytes =
     \<lparr>files = [[''scripts'', ''xg_model.pkl''] \<mapsto> File bytes],
      may_read = (\<lambda>p. True),
      may_write = (\<lambda>p. True),
      capacity = None,
      stdout = [],
      stderr = []\<rparr>"

text \<open>A state without the file.\<close>

definition empty_world :: world where
  "empty_world =
     \<lparr>files = Map.empty,
      may_read = (\<lambda>p. True),
      may_write = (\<lambda>p. True),
      capacity = None,
      stdout = [],
      stderr = []\<rparr>"

text \<open>The same file in a directory the process may not write to.\<close>

definition read_only_world :: world where
  "read_only_world = (world_with ''P'')\<lparr>may_write := (\<lambda>p. False)\<rparr>"

text \<open>
  The JSON document of the example, line by line:
  \<^verbatim>\<open>{ "scaler_mean": [0.1, 0.2, 0.3], "scaler_scale": [1.0, 1.1, 1.2],
  "lr_coef": [0.5, -0.3, 0.2], "lr_intercept": -1.4 }\<close> with an indent of two spaces.
\<close>

definition example_json :: string where
  "example_json = join [newline]
     [''{'',
      ''  '' @ [dquote] @ ''scaler_mean'' @ [dquote] @ '': ['',
      ''    0.1,'',
      ''    0.2,'',
      ''    0.3'',
      ''  ],'',
      ''  '' @ [dquote] @ ''scaler_scale'' @ [dquote] @ '': ['',
      ''    1.0,'',
      ''    1.1,'',
      ''    1.2'',
      ''  ],'',
      ''  '' @ [dquote] @ ''lr_coef'' @ [dquote] @ '': ['',
      ''    0.5,'',
      ''    -0.3,'',
      ''    0.2'',
      ''  ],'',
      ''  '' @ [dquote] @ ''lr_intercept'' @ [dquote] @ '': -1.4'',
      ''}'']"

section \<open>Properties\<close>

subsection \<open>Auxiliary facts\<close>

lemma and_then_Inr [simp]: "and_then (Inr x) f = f x"
  by (simp add: and_then_def)
lemma and_then_Inl [simp]: "and_then (Inl e) f = Inl e"
  by (simp add: and_then_def)

lemma two_stages_Some:
  "two_stages model = Some (scaler, lr) \<Longrightarrow> model = PySeq [PyInst scaler, PyInst lr]"
  by (erule two_stages.elims) simp_all

lemma extract_params_represents:
  assumes "represents model p" "coefs p \<noteq> []" "intercepts p \<noteq> []"
  shows "extract_params model = Inr (params_of p)"
proof -
  from assms(1) obtain scaler lr where m: "model = PySeq [PyInst scaler, PyInst lr]"
    and a: "map_of scaler ''mean_'' = Some (vector (means p))"
      "map_of scaler ''scale_'' = Some (vector (scales p))"
      "map_of lr ''coef_'' = Some (matrix (coefs p))"
      "map_of lr ''intercept_'' = Some (vector (intercepts p))"
    by (auto simp: represents_def split: option.splits dest: two_stages_Some)
  obtain r rs where c: "coefs p = r # rs" using assms(2) by (cases "coefs p") auto
  obtain b bs where i: "intercepts p = b # bs" using assms(3) by (cases "intercepts p") auto
  show ?thesis
    by (simp add: extract_params_def m a c i params_of_def vector_def matrix_def comp_def)
qed

lemma well_formed_nonempty:
  "well_formed k p \<Longrightarrow> coefs p \<noteq> [] \<and> intercepts p \<noteq> []"
  by (auto simp: well_formed_def)

lemma with_name_PKL: "with_name (PKL_PATH script) n = Inr (joinpath (parent script) n)"
  by (simp add: with_name_def PKL_PATH_def joinpath_def)

lemma main_loaded:
  assumes "path_exists w (PKL_PATH script)" "load_model rt w (PKL_PATH script) = Inr model"
    "extract_params model = Inr ps"
  shows "main rt script argv w =
    (if ''--json'' \<in> set argv then
       (case open_w (w\<lparr>stdout := stdout w @ report rt ps\<rparr>) (json_path_of script) of
          Inl e \<Rightarrow> (Uncaught e, w\<lparr>stdout := stdout w @ report rt ps\<rparr>)
        | Inr w6 \<Rightarrow>
           (case write_file w6 (json_path_of script) (json_dump rt ps) of
              (Some e, w7) \<Rightarrow> (Uncaught e, w7)
            | (None, w7) \<Rightarrow> (Returned, print_stderr (wrote_message (json_path_of script)) w7)))
     else (Returned, w\<lparr>stdout := stdout w @ report rt ps\<rparr>))"
  using assms
  by (simp add: main_def with_name_PKL json_path_of_def print_stdout_def report_def Let_def
      split: sum.splits prod.splits option.splits)

lemma stdout_open_w: "open_w w p = Inr w' \<Longrightarrow> stdout w' = stdout w \<and> stderr w' = stderr w"
  by (auto simp: open_w_def split: option.splits node.splits if_splits)

lemma stdout_write_file: "write_file w p t = (r, w') \<Longrightarrow> stdout w' = stdout w \<and> stderr w' = stderr w"
  by (auto simp: write_file_def split: option.splits if_splits)



lemma stdout_main_loaded:
  assumes "path_exists w (PKL_PATH script)" "load_model rt w (PKL_PATH script) = Inr model"
    "extract_params model = Inr ps"
  shows "stdout (snd (main rt script argv w)) = stdout w @ report rt ps"
proof (cases "''--json'' \<in> set argv")
  case False
  then show ?thesis by (simp add: main_loaded [OF assms])
next
  case True
  let ?w5 = "w\<lparr>stdout := stdout w @ report rt ps\<rparr>"
  show ?thesis
  proof (cases "open_w ?w5 (json_path_of script)")
    case (Inl e)
    with True show ?thesis by (simp add: main_loaded [OF assms])
  next
    case (Inr w6)
    obtain r w7 where wf: "write_file w6 (json_path_of script) (json_dump rt ps) = (r, w7)"
      by (cases "write_file w6 (json_path_of script) (json_dump rt ps)") auto
    have "stdout w7 = stdout ?w5"
      using stdout_open_w [OF Inr] stdout_write_file [OF wf] by simp
    with True Inr wf show ?thesis
      by (cases r) (simp_all add: main_loaded [OF assms] print_stderr_def)
  qed
qed


lemma holds_pipeline_load:
  assumes "holds_pipeline rt script w p"
  shows "path_exists w (PKL_PATH script) \<and>
    (\<exists>model. load_model rt w (PKL_PATH script) = Inr model \<and> represents model p)"
  using assms
  by (auto simp: holds_pipeline_def path_exists_def load_model_def open_rb_def
      split: option.splits node.splits sum.splits)

lemma holds_pipeline_extract:
  assumes "holds_pipeline rt script w p" "well_formed k p"
  shows "path_exists w (PKL_PATH script) \<and>
    (\<exists>model. load_model rt w (PKL_PATH script) = Inr model \<and>
       extract_params model = Inr (params_of p))"
  using holds_pipeline_load [OF assms(1)] well_formed_nonempty [OF assms(2)]
  by (auto intro: extract_params_represents)

lemma report_params_of:
  "report rt (params_of p) =
     [banner @ [newline],
      ''let SCALER_MEAN  = ['' @ join '', '' (map (float_repr rt) (means p)) @ ''];'' @ [newline],
      ''let SCALER_SCALE = ['' @ join '', '' (map (float_repr rt) (scales p)) @ ''];'' @ [newline],
      ''let LR_COEF      = ['' @ join '', '' (map (float_repr rt) (hd (coefs p))) @ ''];'' @ [newline],
      ''let LR_INTERCEPT  = '' @ float_repr rt (hd (intercepts p)) @ '';'' @ [newline]]"
  by (simp add: report_def params_of_def comp_def)

lemma count_join:
  "\<forall>t\<in>set ts. count_list t c = 0 \<Longrightarrow> count_list sep c = 0 \<Longrightarrow> count_list (join sep ts) c = 0"
  by (induction sep ts rule: join.induct) auto

lemma count_list_0_iff: "count_list t c = 0 \<longleftrightarrow> c \<notin> set t"
  by (induction t) auto

lemma banner_newline: "count_list banner newline = 0"
  by (simp add: banner_def box_dash_def newline_def)


lemma count_wrapped:
  "count_list pre c = 0 \<Longrightarrow> count_list body c = 0 \<Longrightarrow> count_list post c = 1 \<Longrightarrow>
   count_list (pre @ body @ post) c = 1"
  by simp

lemma count_concat5:
  assumes "count_list a c = 1" "count_list b c = 1" "count_list d c = 1" "count_list e c = 1"
    "count_list f c = 1"
  shows "count_list (concat [a, b, d, e, f]) c = 5"
  using assms by simp

lemma count_array_line:
  assumes "\<forall>x\<in>set xs. newline \<notin> set (float_repr rt x)" "count_list pre newline = 0"
  shows "count_list (pre @ join '', '' (map (float_repr rt) xs) @ ''];'' @ [newline]) newline = 1"
proof (rule count_wrapped [OF assms(2)])
  show "count_list (join '', '' (map (float_repr rt) xs)) newline = 0"
    using assms(1) by (intro count_join) (auto simp: count_list_0_iff newline_def)
  show "count_list (''];'' @ [newline]) newline = 1"
    by (simp add: newline_def)
qed

lemma count_report:
  assumes "\<forall>x\<in>printed_floats p. newline \<notin> set (float_repr rt x)"
  shows "count_list (concat (report rt (params_of p))) newline = 5"
  unfolding report_params_of
proof (rule count_concat5)
  show "count_list (banner @ [newline]) newline = 1"
    by (simp add: banner_newline)
  show "count_list (''let SCALER_MEAN  = ['' @ join '', '' (map (float_repr rt) (means p))
      @ ''];'' @ [newline]) newline = 1"
    using assms by (intro count_array_line) (simp_all add: printed_floats_def newline_def)
  show "count_list (''let SCALER_SCALE = ['' @ join '', '' (map (float_repr rt) (scales p))
      @ ''];'' @ [newline]) newline = 1"
    using assms by (intro count_array_line) (simp_all add: printed_floats_def newline_def)
  show "count_list (''let LR_COEF      = ['' @ join '', '' (map (float_repr rt) (hd (coefs p)))
      @ ''];'' @ [newline]) newline = 1"
    using assms by (intro count_array_line) (simp_all add: printed_floats_def newline_def)
  show "count_list (''let LR_INTERCEPT  = '' @ float_repr rt (hd (intercepts p))
      @ '';'' @ [newline]) newline = 1"
  proof (rule count_wrapped)
    show "count_list (float_repr rt (hd (intercepts p))) newline = 0"
      using assms by (simp add: printed_floats_def count_list_0_iff)
  qed (simp_all add: newline_def)
qed

lemma PKL_example: "PKL_PATH example_script = [''scripts'', ''xg_model.pkl'']"
  by (simp add: PKL_PATH_def example_script_def parent_def joinpath_def)

lemma example_represents: "represents example_model example_pipeline"
  by (simp add: represents_def example_model_def)

lemma example_holds:
  "holds_pipeline example_runtime example_script (world_with ''P'') example_pipeline"
  by (simp add: holds_pipeline_def PKL_example world_with_def example_runtime_def example_represents)

lemma example_well_formed: "well_formed 3 example_pipeline"
  by (simp add: well_formed_def example_pipeline_def)

lemma example_newline_free:
  "\<forall>x\<in>printed_floats example_pipeline. newline \<notin> set (float_repr example_runtime x)"
  by (simp add: printed_floats_def example_pipeline_def example_runtime_def newline_def)

lemma main_missing:
  "\<not> path_exists w (PKL_PATH script) \<Longrightarrow>
   main rt script argv w = (SystemExit 1, print_stderr (missing_message (PKL_PATH script)) w)"
  by (simp add: main_def)

lemma main_load_fails:
  "path_exists w (PKL_PATH script) \<Longrightarrow> load_model rt w (PKL_PATH script) = Inl e \<Longrightarrow>
   main rt script argv w = (Uncaught e, w)"
  by (simp add: main_def)

lemma main_extract_fails:
  "path_exists w (PKL_PATH script) \<Longrightarrow> load_model rt w (PKL_PATH script) = Inr model \<Longrightarrow>
   extract_params model = Inl e \<Longrightarrow> main rt script argv w = (Uncaught e, w)"
  by (simp add: main_def)

lemma main_no_flag:
  assumes "path_exists w (PKL_PATH script)" "load_model rt w (PKL_PATH script) = Inr model"
    "extract_params model = Inr ps" "''--json'' \<notin> set argv"
  shows "main rt script argv w = (Returned, w\<lparr>stdout := stdout w @ report rt ps\<rparr>)"
  using assms(4) by (simp add: main_loaded [OF assms(1-3)])

lemma files_write_file:
  "write_file w p t = (None, w') \<Longrightarrow> files w' p = Some (File t)"
  by (auto simp: write_file_def split: option.splits if_splits)

lemma main_flag_returned:
  assumes "path_exists w (PKL_PATH script)" "load_model rt w (PKL_PATH script) = Inr model"
    "extract_params model = Inr ps" "''--json'' \<in> set argv"
    "fst (main rt script argv w) = Returned"
  shows "files (snd (main rt script argv w)) (json_path_of script) = Some (File (json_dump rt ps))"
proof -
  let ?w5 = "w\<lparr>stdout := stdout w @ report rt ps\<rparr>"
  note m = main_loaded [OF assms(1-3), of argv]
  show ?thesis
  proof (cases "open_w ?w5 (json_path_of script)")
    case (Inl e)
    with assms(4,5) m show ?thesis by simp
  next
    case (Inr w6)
    obtain r w7 where wf: "write_file w6 (json_path_of script) (json_dump rt ps) = (r, w7)"
      by (cases "write_file w6 (json_path_of script) (json_dump rt ps)") auto
    show ?thesis
    proof (cases r)
      case None
      with wf have "files w7 (json_path_of script) = Some (File (json_dump rt ps))"
        by (simp add: files_write_file)
      with assms(4) Inr wf None m show ?thesis by (simp add: print_stderr_def)
    next
      case (Some e)
      with assms(4,5) Inr wf m show ?thesis by simp
    qed
  qed
qed

lemma load_model_cong:
  "files w1 p = files w2 p \<Longrightarrow> may_read w1 p = may_read w2 p \<Longrightarrow>
   load_model rt w1 p = load_model rt w2 p"
  by (simp add: load_model_def open_rb_def split: option.splits node.splits)

lemma well_formed_lengths:
  assumes "well_formed k p"
  shows "length (means p) = k" "length (scales p) = k" "length (hd (coefs p)) = k"
  using assms by (auto simp: well_formed_def list_all_iff hd_in_set)

lemma stdout_main_cong:
  assumes "files w1 (PKL_PATH script) = files w2 (PKL_PATH script)"
    and "may_read w1 (PKL_PATH script) = may_read w2 (PKL_PATH script)"
    and "stdout w1 = stdout w2"
  shows "stdout (snd (main rt script argv1 w1)) = stdout (snd (main rt script argv2 w2))"
proof (cases "path_exists w1 (PKL_PATH script)")
  case False
  then have "\<not> path_exists w2 (PKL_PATH script)"
    using assms(1) by (simp add: path_exists_def)
  with False assms(3) show ?thesis
    by (simp add: main_missing print_stderr_def)
next
  case True
  then have e2: "path_exists w2 (PKL_PATH script)"
    using assms(1) by (simp add: path_exists_def)
  note lm = load_model_cong [OF assms(1,2), of rt]
  show ?thesis
  proof (cases "load_model rt w1 (PKL_PATH script)")
    case (Inl e)
    from Inl lm have l2: "load_model rt w2 (PKL_PATH script) = Inl e" by simp
    show ?thesis
      by (simp add: main_load_fails [OF True Inl] main_load_fails [OF e2 l2] assms(3))
  next
    case (Inr model)
    from Inr lm have l2: "load_model rt w2 (PKL_PATH script) = Inr model" by simp
    show ?thesis
    proof (cases "extract_params model")
      case (Inl e)
      show ?thesis
        by (simp add: main_extract_fails [OF True Inr Inl] main_extract_fails [OF e2 l2 Inl]
            assms(3))
    next
      case ps: (Inr ps)
      show ?thesis
        by (simp add: stdout_main_loaded [OF True Inr ps] stdout_main_loaded [OF e2 l2 ps] assms(3))
    qed
  qed
qed

lemma returned_loaded:
  assumes "fst (main rt script argv w) = Returned"
  shows "path_exists w (PKL_PATH script) \<and>
    (\<exists>model ps. load_model rt w (PKL_PATH script) = Inr model \<and> extract_params model = Inr ps)"
proof (cases "path_exists w (PKL_PATH script)")
  case False
  with assms show ?thesis by (simp add: main_missing)
next
  case True
  show ?thesis
  proof (cases "load_model rt w (PKL_PATH script)")
    case (Inl e)
    with True assms show ?thesis by (simp add: main_load_fails)
  next
    case (Inr model)
    with True assms show ?thesis
      by (cases "extract_params model") (simp_all add: main_extract_fails)
  qed
qed

lemma open_w_ok:
  "files w p \<noteq> Some Dir \<Longrightarrow> may_write w p \<Longrightarrow>
   open_w w p = Inr (w\<lparr>files := (files w)(p \<mapsto> File [])\<rparr>)"
  by (simp add: open_w_def split: option.splits node.splits)

lemma open_w_fails:
  "files w p = Some Dir \<or> \<not> may_write w p \<Longrightarrow> \<exists>e. open_w w p = Inl e"
  by (auto simp: open_w_def split: option.splits node.splits)

lemma main_json_ok:
  assumes "path_exists w (PKL_PATH script)" "load_model rt w (PKL_PATH script) = Inr model"
    "extract_params model = Inr ps" "''--json'' \<in> set argv"
    "can_write w (json_path_of script) (json_dump rt ps)"
  shows "main rt script argv w =
    (Returned,
     w\<lparr>stdout := stdout w @ report rt ps,
       files := (files w)(json_path_of script \<mapsto> File (json_dump rt ps)),
       capacity := map_option (\<lambda>n. n - length (json_dump rt ps)) (capacity w),
       stderr := stderr w @ [wrote_message (json_path_of script) @ [newline]]\<rparr>)"
proof -
  let ?w5 = "w\<lparr>stdout := stdout w @ report rt ps\<rparr>"
  let ?jp = "json_path_of script"
  from assms(5) have c: "files w ?jp \<noteq> Some Dir" "may_write w ?jp"
    "case capacity w of None \<Rightarrow> True | Some n \<Rightarrow> length (json_dump rt ps) \<le> n"
    by (simp_all add: can_write_def)
  have o: "open_w ?w5 ?jp = Inr (?w5\<lparr>files := (files ?w5)(?jp \<mapsto> File [])\<rparr>)"
    using c(1,2) by (intro open_w_ok) simp_all
  show ?thesis
    using c(3) assms(4)
    by (cases "capacity w")
      (simp_all add: main_loaded [OF assms(1-3)] o write_file_def print_stderr_def)
qed

lemma main_json_fails:
  assumes "path_exists w (PKL_PATH script)" "load_model rt w (PKL_PATH script) = Inr model"
    "extract_params model = Inr ps" "''--json'' \<in> set argv"
    "\<not> can_write w (json_path_of script) (json_dump rt ps)"
  shows "\<exists>e w'. main rt script argv w = (Uncaught e, w') \<and>
    stdout w' = stdout w @ report rt ps \<and> stderr w' = stderr w"
proof -
  let ?w5 = "w\<lparr>stdout := stdout w @ report rt ps\<rparr>"
  let ?jp = "json_path_of script"
  note m = main_loaded [OF assms(1-3), of argv]
  show ?thesis
  proof (cases "files w ?jp = Some Dir \<or> \<not> may_write w ?jp")
    case True
    then have "files ?w5 ?jp = Some Dir \<or> \<not> may_write ?w5 ?jp" by simp
    from open_w_fails [OF this] obtain e where "open_w ?w5 ?jp = Inl e" ..
    with assms(4) m show ?thesis by simp
  next
    case False
    then have o: "open_w ?w5 ?jp = Inr (?w5\<lparr>files := (files ?w5)(?jp \<mapsto> File [])\<rparr>)"
      by (intro open_w_ok) simp_all
    from False assms(5) obtain n where n: "capacity w = Some n" "\<not> length (json_dump rt ps) \<le> n"
      by (auto simp: can_write_def split: option.splits)
    show ?thesis
      using assms(4) n by (simp add: m o write_file_def)
  qed
qed

lemma json_path_example: "json_path_of example_script = [''scripts'', ''xg_model_params.json'']"
  by (simp add: json_path_of_def example_script_def parent_def joinpath_def)

lemma example_exists: "path_exists (world_with ''P'') (PKL_PATH example_script)"
  by (simp add: path_exists_def PKL_example world_with_def)

lemma example_load:
  "load_model example_runtime (world_with ''P'') (PKL_PATH example_script) = Inr example_model"
  by (simp add: load_model_def open_rb_def PKL_example world_with_def example_runtime_def)

lemma example_extract: "extract_params example_model = Inr (params_of example_pipeline)"
  by (rule extract_params_represents [OF example_represents])
    (simp_all add: example_pipeline_def)

lemma example_can_write: "can_write (world_with ''P'') (json_path_of example_script) t"
  by (simp add: can_write_def json_path_example world_with_def)

lemma example_json_run:
  "''--json'' \<in> set argv \<Longrightarrow>
   fst (main example_runtime example_script argv (world_with ''P'')) = Returned"
  by (simp add: main_json_ok [OF example_exists example_load example_extract _ example_can_write])

lemma newline_indent_simps:
  "newline_indent 0 = [newline]"
  "newline_indent (Suc 0) = newline # ''  ''"
  "newline_indent (Suc (Suc 0)) = newline # ''    ''"
  by (simp_all add: newline_indent_def numeral_2_eq_2)

lemma json_dump_text:
  "json_dump rt ps =
     ''{'' @ newline_indent 1 @ json_key ''scaler_mean'' @ '': ''
         @ json_value rt 1 (scaler_mean ps)
       @ '','' @ newline_indent 1 @ json_key ''scaler_scale'' @ '': ''
         @ json_value rt 1 (scaler_scale ps)
       @ '','' @ newline_indent 1 @ json_key ''lr_coef'' @ '': ''
         @ json_value rt 1 (lr_coef ps)
       @ '','' @ newline_indent 1 @ json_key ''lr_intercept'' @ '': ''
         @ floatstr rt (lr_intercept ps)
       @ newline_indent 0 @ ''}''"
  by (simp add: json_dump_def json_dict_def items_def)

lemma json_dump_params_of:
  "json_dump rt (params_of p) =
     ''{'' @ newline_indent 1 @ json_key ''scaler_mean'' @ '': ''
         @ json_value rt 1 (VList (map VFloat (means p)))
       @ '','' @ newline_indent 1 @ json_key ''scaler_scale'' @ '': ''
         @ json_value rt 1 (VList (map VFloat (scales p)))
       @ '','' @ newline_indent 1 @ json_key ''lr_coef'' @ '': ''
         @ json_value rt 1 (VList (map VFloat (hd (coefs p))))
       @ '','' @ newline_indent 1 @ json_key ''lr_intercept'' @ '': ''
         @ floatstr rt (hd (intercepts p))
       @ newline_indent 0 @ ''}''"
  by (simp add: json_dump_def json_dict_def items_def params_of_def)

lemma example_json_dump: "json_dump example_runtime (params_of example_pipeline) = example_json"
  by (simp add: json_dump_params_of newline_indent_simps example_pipeline_def example_json_def
      floatstr_def example_runtime_def json_key_def)

lemma read_only_facts:
  "path_exists read_only_world (PKL_PATH example_script)"
  "load_model example_runtime read_only_world (PKL_PATH example_script) = Inr example_model"
  "\<not> can_write read_only_world (json_path_of example_script) t"
  by (simp_all add: read_only_world_def path_exists_def load_model_def open_rb_def PKL_example
      world_with_def example_runtime_def can_write_def)

lemma params_of_cong:
  "means p' = means p \<Longrightarrow> scales p' = scales p \<Longrightarrow> hd (coefs p') = hd (coefs p) \<Longrightarrow>
   hd (intercepts p') = hd (intercepts p) \<Longrightarrow> params_of p' = params_of p"
  by (simp add: params_of_def)

lemma multiclass_represents: "represents multiclass_model multiclass_pipeline"
  by (simp add: represents_def multiclass_model_def)

lemma multiclass_well_formed: "well_formed 3 multiclass_pipeline"
  by (simp add: well_formed_def multiclass_pipeline_def)

lemma getattr_Inr:
  "getattr obj name = Inr v \<Longrightarrow> \<exists>attrs. obj = PyInst attrs \<and> map_of attrs name = Some v"
  by (cases obj) (auto split: option.splits)

lemma getitem_instances:
  assumes "getitem model 0 = Inr (PyInst a)" "getitem model (Suc 0) = Inr (PyInst b)"
  shows "\<exists>rest. model = PySeq (PyInst a # PyInst b # rest)"
proof (cases model)
  case (PySeq xs)
  with assms have "1 < length xs" "xs ! 0 = PyInst a" "xs ! Suc 0 = PyInst b"
    by (auto split: if_splits)
  then obtain rest where "xs = PyInst a # PyInst b # rest"
    by (cases xs; cases "tl xs") auto
  with PySeq show ?thesis by simp
next
  case (PyNd arr)
  with assms show ?thesis by (cases arr) (auto split: if_splits)
qed (use assms in auto)

lemma extract_params_Inr:
  assumes "extract_params model = Inr ps"
  shows "leading_structure model"
proof -
  from assms obtain scaler lr vm vs vc vb where
    g: "getitem model 0 = Inr scaler" "getitem model 1 = Inr lr"
    and "getattr scaler ''mean_'' = Inr vm" "getattr scaler ''scale_'' = Inr vs"
    "getattr lr ''coef_'' = Inr vc" "getattr lr ''intercept_'' = Inr vb"
    by (auto simp: extract_params_def and_then_def split: sum.splits)
  then obtain sa la where i: "scaler = PyInst sa" "lr = PyInst la"
    and m: "map_of sa ''mean_'' = Some vm" "map_of sa ''scale_'' = Some vs"
      "map_of la ''coef_'' = Some vc" "map_of la ''intercept_'' = Some vb"
    by (auto dest!: getattr_Inr)
  from g i obtain rest where "model = PySeq (PyInst sa # PyInst la # rest)"
    using getitem_instances [of model sa la] by auto
  with m show ?thesis
    by (simp add: leading_structure_def has_attributes_def)
qed

lemma extract_params_fails:
  "\<not> leading_structure model \<Longrightarrow> \<exists>e. extract_params model = Inl e"
  using extract_params_Inr [of model] by (cases "extract_params model") auto

lemma three_stage_extract:
  "extract_params three_stage_model = Inr (params_of example_pipeline)"
  by (simp add: extract_params_def three_stage_model_def params_of_def example_pipeline_def
      vector_def matrix_def)

lemma strip_prefix_append: "strip_prefix p (p @ r) = Some r"
  by (induction p) auto

lemma scan_items_space:
  "list_all (\<lambda>c. c = CHR '' '' \<or> c = newline) ws \<Longrightarrow> scan_items cur (ws @ s) = scan_items cur s"
  by (induction ws) (auto simp: newline_def)

lemma scan_items_token:
  "list_all (\<lambda>c. \<not> delimiter c) t \<Longrightarrow> scan_items cur (t @ s) = scan_items (cur @ t) s"
  by (induction t arbitrary: cur) (auto simp: delimiter_def)

lemma scan_items_join:
  assumes post: "list_all (\<lambda>c. c = CHR '' '' \<or> c = newline) post"
    and sepw: "list_all (\<lambda>c. c = CHR '' '' \<or> c = newline) sepw"
  shows "list_all token ts \<Longrightarrow>
    scan_items [] (join (CHR '','' # sepw) ts @ post @ CHR '']'' # rest) = Some (ts, rest)"
proof (induction ts)
  case Nil
  show ?case
    by (simp add: scan_items_space [OF post])
next
  case (Cons x xs)
  then have x: "list_all (\<lambda>c. \<not> delimiter c) x" "x \<noteq> []"
    by (simp_all add: token_def)
  show ?case
  proof (cases xs)
    case Nil
    with x show ?thesis
      by (simp add: scan_items_token scan_items_space [OF post])
  next
    case (Cons y ys)
    with Cons.IH Cons.prems
    have ih: "scan_items [] (join (CHR '','' # sepw) (y # ys) @ post @ CHR '']'' # rest)
        = Some (y # ys, rest)"
      by simp
    have "scan_items [] (join (CHR '','' # sepw) (x # y # ys) @ post @ CHR '']'' # rest)
        = scan_items x (CHR '','' # sepw @ join (CHR '','' # sepw) (y # ys) @ post @ CHR '']'' # rest)"
      using scan_items_token [OF x(1), of "[]"] by simp
    also have "\<dots> = Some (x # y # ys, rest)"
      using ih by (simp add: scan_items_space [OF sepw])
    finally show ?thesis using Cons by simp
  qed
qed

lemma those_map_parse:
  "\<forall>x\<in>set xs. parse (f x) = Some x \<Longrightarrow> those (map parse (map f xs)) = Some xs"
  by (induction xs) auto

lemma decode_array_py_str:
  assumes "\<forall>x\<in>set xs. token (float_repr rt x) \<and> parse (float_repr rt x) = Some x"
  shows "decode_array parse (py_str rt (VList (map VFloat xs)) @ rest) = Some (xs, rest)"
proof -
  have t: "list_all token (map (float_repr rt) xs)"
    using assms by (simp add: list_all_iff)
  have "scan_items [] (join (CHR '','' # '' '') (map (float_repr rt) xs) @ [] @ CHR '']'' # rest)
      = Some (map (float_repr rt) xs, rest)"
    by (rule scan_items_join [OF _ _ t]) simp_all
  moreover have "those (map parse (map (float_repr rt) xs)) = Some xs"
    using assms by (intro those_map_parse) simp
  ultimately show ?thesis
    by (simp add: decode_array_def comp_def)
qed

lemma decode_number_token:
  assumes "token t" "delimiter d"
  shows "decode_number parse (t @ d # rest) = parse t"
proof -
  from assms(1) have "\<forall>c\<in>set t. \<not> delimiter c"
    by (simp add: token_def list_all_iff)
  then have "takeWhile (\<lambda>c. \<not> delimiter c) (t @ d # rest) = t"
    using assms(2) by simp
  then show ?thesis by (simp add: decode_number_def)
qed

lemma list_all_newline_indent:
  "list_all (\<lambda>c. c = CHR '' '' \<or> c = newline) (newline_indent n)"
  by (simp add: newline_indent_def list_all_iff)

lemma json_value_floats:
  "xs \<noteq> [] \<Longrightarrow> json_value rt n (VList (map VFloat xs)) =
     CHR ''['' # newline_indent (Suc n) @
       join (CHR '','' # newline_indent (Suc n)) (map (floatstr rt) xs)
       @ newline_indent n @ '']''"
  by (simp add: comp_def)

lemma decode_array_json:
  assumes "\<forall>x\<in>set xs. token (floatstr rt x) \<and> parse (floatstr rt x) = Some x"
  shows "decode_array parse (json_value rt n (VList (map VFloat xs)) @ rest) = Some (xs, rest)"
proof (cases "xs = []")
  case True
  then show ?thesis
    by (simp add: decode_array_def)
next
  case False
  have t: "list_all token (map (floatstr rt) xs)"
    using assms by (simp add: list_all_iff)
  have "scan_items [] (join (CHR '','' # newline_indent (Suc n)) (map (floatstr rt) xs)
        @ newline_indent n @ CHR '']'' # rest)
      = Some (map (floatstr rt) xs, rest)"
    by (rule scan_items_join [OF list_all_newline_indent list_all_newline_indent t])
  then have s: "scan_items [] (newline_indent (Suc n) @
        join (CHR '','' # newline_indent (Suc n)) (map (floatstr rt) xs)
        @ newline_indent n @ CHR '']'' # rest)
      = Some (map (floatstr rt) xs, rest)"
    by (simp only: scan_items_space [OF list_all_newline_indent])
  have p: "those (map parse (map (floatstr rt) xs)) = Some xs"
    using assms by (intro those_map_parse) simp
  have sp: "strip_prefix ''['' (json_value rt n (VList (map VFloat xs)) @ rest) =
      Some (newline_indent (Suc n) @
        join (CHR '','' # newline_indent (Suc n)) (map (floatstr rt) xs)
        @ newline_indent n @ CHR '']'' # rest)"
    unfolding json_value_floats [OF False] by simp
  show ?thesis
    unfolding decode_array_def sp using s p by (simp add: comp_def)
qed

lemma token_floatstr: "token (float_repr rt x) \<Longrightarrow> token (floatstr rt x)"
  by (cases "float_kind rt x") (simp_all add: floatstr_def token_def delimiter_def newline_def)

lemma array_after_py_str:
  assumes "\<forall>x\<in>set xs. reads_back rt parse x"
  shows "array_after parse pre (pre @ py_str rt (VList (map VFloat xs)) @ rest) = Some (xs, rest)"
proof -
  from assms have "\<forall>x\<in>set xs. token (float_repr rt x) \<and> parse (float_repr rt x) = Some x"
    by (simp add: reads_back_def)
  from decode_array_py_str [OF this] show ?thesis
    by (simp only: array_after_def strip_prefix_append Option.bind.simps)
qed

lemma array_after_json:
  assumes "\<forall>x\<in>set xs. reads_back rt parse x"
  shows "array_after parse pre (pre @ json_value rt n (VList (map VFloat xs)) @ rest)
    = Some (xs, rest)"
proof -
  from assms have "\<forall>x\<in>set xs. token (floatstr rt x) \<and> parse (floatstr rt x) = Some x"
    by (simp add: reads_back_def token_floatstr)
  from decode_array_json [OF this] show ?thesis
    by (simp only: array_after_def strip_prefix_append Option.bind.simps)
qed

lemma number_after_token:
  assumes "token t" "delimiter d"
  shows "number_after parse pre (pre @ t @ d # rest) = parse t"
  by (simp only: number_after_def strip_prefix_append Option.bind.simps
      decode_number_token [OF assms])

lemma decode_stdout_report:
  assumes "\<forall>x\<in>printed_floats p. reads_back rt parse x"
  shows "decode_stdout parse (report rt (params_of p)) =
    Some (means p, scales p, hd (coefs p), hd (intercepts p))"
proof -
  from assms have a: "\<forall>x\<in>set (means p). reads_back rt parse x"
    "\<forall>x\<in>set (scales p). reads_back rt parse x"
    "\<forall>x\<in>set (hd (coefs p)). reads_back rt parse x"
    and b: "reads_back rt parse (hd (intercepts p))"
    by (simp_all add: printed_floats_def)
  have n: "number_after parse ''let LR_INTERCEPT  = ''
      (''let LR_INTERCEPT  = '' @ float_repr rt (hd (intercepts p)) @ CHR '';'' # [newline])
      = Some (hd (intercepts p))"
    using b by (subst number_after_token) (simp_all add: reads_back_def delimiter_def)
  have r: "report rt (params_of p) =
     [banner @ [newline],
      ''let SCALER_MEAN  = '' @ py_str rt (VList (map VFloat (means p))) @ '';'' @ [newline],
      ''let SCALER_SCALE = '' @ py_str rt (VList (map VFloat (scales p))) @ '';'' @ [newline],
      ''let LR_COEF      = '' @ py_str rt (VList (map VFloat (hd (coefs p)))) @ '';'' @ [newline],
      ''let LR_INTERCEPT  = '' @ float_repr rt (hd (intercepts p)) @ CHR '';'' # [newline]]"
    by (simp add: report_def params_of_def)
  show ?thesis
    unfolding r decode_stdout_def
    by (simp only: list.case array_after_py_str [OF a(1)] array_after_py_str [OF a(2)]
        array_after_py_str [OF a(3)] n Option.bind.simps prod.case)
qed

lemma json_dump_fields:
  "json_dump rt (params_of p) =
     (''{'' @ field_start ''scaler_mean'') @ json_value rt 1 (VList (map VFloat (means p))) @
     ('','' @ field_start ''scaler_scale'') @ json_value rt 1 (VList (map VFloat (scales p))) @
     ('','' @ field_start ''lr_coef'') @ json_value rt 1 (VList (map VFloat (hd (coefs p)))) @
     ('','' @ field_start ''lr_intercept'') @ floatstr rt (hd (intercepts p)) @ newline # ''}''"
  by (simp add: json_dump_params_of field_start_def newline_indent_def)

lemma decode_json_dump:
  assumes "\<forall>x\<in>printed_floats p. reads_back rt parse x"
  shows "decode_json parse (json_dump rt (params_of p)) =
    Some (means p, scales p, hd (coefs p), hd (intercepts p))"
proof -
  from assms have a: "\<forall>x\<in>set (means p). reads_back rt parse x"
    "\<forall>x\<in>set (scales p). reads_back rt parse x"
    "\<forall>x\<in>set (hd (coefs p)). reads_back rt parse x"
    and b: "reads_back rt parse (hd (intercepts p))"
    by (simp_all add: printed_floats_def)
  have n: "number_after parse ('','' @ field_start ''lr_intercept'')
      (('','' @ field_start ''lr_intercept'') @ floatstr rt (hd (intercepts p)) @ newline # ''}'')
      = Some (hd (intercepts p))"
    using b by (subst number_after_token) (simp_all add: reads_back_def delimiter_def token_floatstr)
  show ?thesis
    unfolding json_dump_fields decode_json_def
    by (simp only: array_after_json [OF a(1)] array_after_json [OF a(2)]
        array_after_json [OF a(3)] n Option.bind.simps prod.case)
qed

lemma example_reads_back: "\<forall>x\<in>printed_floats example_pipeline. reads_back example_runtime Some x"
  by (simp add: printed_floats_def example_pipeline_def reads_back_def example_runtime_def
      floatstr_def token_def delimiter_def newline_def)

lemma example_json_file:
  "files (snd (main example_runtime example_script [''extract_xg_model.py'', ''--json'']
     (world_with ''P''))) (json_path_of example_script) = Some (File example_json)"
proof -
  have f: "''--json'' \<in> set [''extract_xg_model.py'', ''--json'']" by simp
  show ?thesis
    by (simp add: main_json_ok [OF example_exists example_load example_extract f example_can_write]
        example_json_dump)
qed

lemma array_items_join:
  assumes "list_all token ts"
  shows "array_items pre (pre @ ''['' @ join '', '' ts @ '']'' @ rest) = Some (ts, rest)"
proof -
  have "scan_items [] (join (CHR '','' # '' '') ts @ [] @ CHR '']'' # rest) = Some (ts, rest)"
    by (rule scan_items_join [OF _ _ assms]) simp_all
  then have "scan_items [] (join '', '' ts @ '']'' @ rest) = Some (ts, rest)"
    by simp
  then show ?thesis
    by (simp only: array_items_def strip_prefix_append Option.bind.simps)
qed

lemma element_count_join:
  assumes "list_all token ts"
  shows "element_count pre (pre @ ''['' @ join '', '' ts @ '']'' @ rest) = Some (length ts)"
  by (simp only: element_count_def array_items_join [OF assms] option.map prod.case)

lemma scan_items_unclosed: "CHR '']'' \<notin> set s \<Longrightarrow> scan_items cur s = None"
  by (induction s arbitrary: cur) auto

lemma element_count_scalar:
  assumes "token t"
  shows "element_count pre (pre @ t @ '';'' @ [newline]) = None"
proof -
  from assms have n: "CHR '']'' \<notin> set (t @ '';'' @ [newline])"
    by (auto simp: token_def list_all_iff delimiter_def newline_def)
  have "array_items pre (pre @ t @ '';'' @ [newline]) = None"
  proof (cases "strip_prefix ''['' (t @ '';'' @ [newline])")
    case None
    then show ?thesis
      by (simp only: array_items_def strip_prefix_append Option.bind.simps)
  next
    case (Some body)
    then have "t @ '';'' @ [newline] = CHR ''['' # body"
      by (cases "t @ '';'' @ [newline]") (auto split: if_splits)
    with n have "CHR '']'' \<notin> set body"
      by (metis list.set_intros(2))
    then have "scan_items [] body = None"
      by (rule scan_items_unclosed)
    with Some show ?thesis
      by (simp only: array_items_def strip_prefix_append Option.bind.simps)
  qed
  then show ?thesis
    by (simp add: element_count_def)
qed

lemma example_tokens:
  "\<forall>x\<in>printed_floats example_pipeline. token (float_repr example_runtime x)"
  by (simp add: printed_floats_def example_pipeline_def example_runtime_def token_def
      delimiter_def newline_def)

subsection \<open>Standard output\<close>

text \<open>
  Claim C1. When the file at the fixed path holds a well-formed pipeline, the script
  appends exactly five texts to standard output, whatever the arguments are. The first
  is the banner, a comment line, written out here byte for byte:
  \<^verbatim>\<open>// -- Paste these into src/utils/xgModel.ts --\<close>, where each dash is U+2500 (the
  bytes E2 94 80). The other four are statements \<^verbatim>\<open>let NAME = VALUE;\<close>. Each text ends in
  a newline (the byte 0A). The three vectors are written as \<^verbatim>\<open>[v1, v2, ..., vn]\<close> with every
  element in the text \<^verbatim>\<open>float.__repr__\<close> gives it, the intercept as that text alone. As the
  text of a float holds no newline, the output has five newlines, that is five lines.
\<close>

theorem stdout_five_lines:
  assumes "holds_pipeline rt script w p" and "well_formed k p"
  shows "let out =
      [''// '' @ [CHR 0xE2, CHR 0x94, CHR 0x80, CHR 0xE2, CHR 0x94, CHR 0x80]
         @ '' Paste these into src/utils/xgModel.ts ''
         @ [CHR 0xE2, CHR 0x94, CHR 0x80, CHR 0xE2, CHR 0x94, CHR 0x80] @ [CHR 0x0A],
       ''let SCALER_MEAN  = ['' @ join '', '' (map (float_repr rt) (means p)) @ ''];'' @ [CHR 0x0A],
       ''let SCALER_SCALE = ['' @ join '', '' (map (float_repr rt) (scales p)) @ ''];'' @ [CHR 0x0A],
       ''let LR_COEF      = ['' @ join '', '' (map (float_repr rt) (hd (coefs p))) @ ''];'' @ [CHR 0x0A],
       ''let LR_INTERCEPT  = '' @ float_repr rt (hd (intercepts p)) @ '';'' @ [CHR 0x0A]]
    in stdout (snd (main rt script argv w)) = stdout w @ out \<and>
       take 2 (hd out) = ''//'' \<and>
       ((\<forall>x\<in>printed_floats p. CHR 0x0A \<notin> set (float_repr rt x)) \<longrightarrow>
          count_list (concat out) (CHR 0x0A) = 5)"
proof -
  from holds_pipeline_extract [OF assms] obtain model where
    l: "path_exists w (PKL_PATH script)" "load_model rt w (PKL_PATH script) = Inr model"
      "extract_params model = Inr (params_of p)"
    by blast
  have out: "stdout (snd (main rt script argv w)) = stdout w @ report rt (params_of p)"
    by (rule stdout_main_loaded [OF l])
  have r: "report rt (params_of p) =
      [''// '' @ [CHR 0xE2, CHR 0x94, CHR 0x80, CHR 0xE2, CHR 0x94, CHR 0x80]
         @ '' Paste these into src/utils/xgModel.ts ''
         @ [CHR 0xE2, CHR 0x94, CHR 0x80, CHR 0xE2, CHR 0x94, CHR 0x80] @ [CHR 0x0A],
       ''let SCALER_MEAN  = ['' @ join '', '' (map (float_repr rt) (means p)) @ ''];'' @ [CHR 0x0A],
       ''let SCALER_SCALE = ['' @ join '', '' (map (float_repr rt) (scales p)) @ ''];'' @ [CHR 0x0A],
       ''let LR_COEF      = ['' @ join '', '' (map (float_repr rt) (hd (coefs p))) @ ''];'' @ [CHR 0x0A],
       ''let LR_INTERCEPT  = '' @ float_repr rt (hd (intercepts p)) @ '';'' @ [CHR 0x0A]]"
    by (simp add: report_params_of banner_def box_dash_def newline_def)
  have cnt: "count_list (concat (report rt (params_of p))) (CHR 0x0A) = 5"
    if "\<forall>x\<in>printed_floats p. CHR 0x0A \<notin> set (float_repr rt x)"
    using count_report [of p rt] that by (simp only: newline_def)
  have c: "take 2 (hd (report rt (params_of p))) = ''//''"
    by (simp add: report_def banner_def)
  show ?thesis
    unfolding Let_def r [symmetric]
    using out cnt c by blast
qed

theorem stdout_five_lines_witness:
  "stdout (snd (main example_runtime example_script [''extract_xg_model.py''] (world_with ''P''))) =
     [''// '' @ [CHR 0xE2, CHR 0x94, CHR 0x80, CHR 0xE2, CHR 0x94, CHR 0x80]
        @ '' Paste these into src/utils/xgModel.ts ''
        @ [CHR 0xE2, CHR 0x94, CHR 0x80, CHR 0xE2, CHR 0x94, CHR 0x80] @ [CHR 0x0A],
      ''let SCALER_MEAN  = [0.1, 0.2, 0.3];'' @ [CHR 0x0A],
      ''let SCALER_SCALE = [1.0, 1.1, 1.2];'' @ [CHR 0x0A],
      ''let LR_COEF      = [0.5, -0.3, 0.2];'' @ [CHR 0x0A],
      ''let LR_INTERCEPT  = -1.4;'' @ [CHR 0x0A]] \<and>
   take 2 (hd (stdout (snd (main example_runtime example_script [''extract_xg_model.py'']
     (world_with ''P''))))) = ''//'' \<and>
   count_list (concat (stdout (snd (main example_runtime example_script
     [''extract_xg_model.py''] (world_with ''P''))))) (CHR 0x0A) = 5"
proof -
  note t = stdout_five_lines [OF example_holds example_well_formed,
      of "[''extract_xg_model.py'']", unfolded Let_def]
  have s: "stdout (world_with ''P'') = []"
    by (simp add: world_with_def)
  have nf: "\<forall>x\<in>printed_floats example_pipeline. CHR 0x0A \<notin> set (float_repr example_runtime x)"
    using example_newline_free by (simp only: newline_def)
  from t have 1: "stdout (snd (main example_runtime example_script [''extract_xg_model.py'']
      (world_with ''P''))) =
     [''// '' @ [CHR 0xE2, CHR 0x94, CHR 0x80, CHR 0xE2, CHR 0x94, CHR 0x80]
        @ '' Paste these into src/utils/xgModel.ts ''
        @ [CHR 0xE2, CHR 0x94, CHR 0x80, CHR 0xE2, CHR 0x94, CHR 0x80] @ [CHR 0x0A],
      ''let SCALER_MEAN  = [0.1, 0.2, 0.3];'' @ [CHR 0x0A],
      ''let SCALER_SCALE = [1.0, 1.1, 1.2];'' @ [CHR 0x0A],
      ''let LR_COEF      = [0.5, -0.3, 0.2];'' @ [CHR 0x0A],
      ''let LR_INTERCEPT  = -1.4;'' @ [CHR 0x0A]]"
    by (simp add: s example_pipeline_def example_runtime_def)
  from t nf have 2: "count_list (concat (stdout (snd (main example_runtime
      example_script [''extract_xg_model.py''] (world_with ''P''))))) (CHR 0x0A) = 5"
    by (simp add: s)
  have 3: "take 2 (hd (stdout (snd (main example_runtime example_script
      [''extract_xg_model.py''] (world_with ''P''))))) = ''//''"
    by (simp add: 1)
  from 1 3 2 show ?thesis by blast
qed

text \<open>
  Claim C4. Let the text of every float the script prints hold no delimiter, as the
  text of a float does. For a well-formed pipeline with \<open>k\<close> features the run appends
  five texts to standard output, and in the second, third and fourth the bracketed array
  after the name has exactly \<open>k\<close> elements, counted on the printed text itself. The
  fifth holds the text of one float followed by the semicolon, and no array.
\<close>

theorem printed_arrays_have_k_elements:
  assumes "holds_pipeline rt script w p" and "well_formed k p"
    and "\<forall>x\<in>printed_floats p. token (float_repr rt x)"
  shows "let out = drop (length (stdout w)) (stdout (snd (main rt script argv w))) in
     length out = 5 \<and>
     element_count ''let SCALER_MEAN  = '' (out ! 1) = Some k \<and>
     element_count ''let SCALER_SCALE = '' (out ! 2) = Some k \<and>
     element_count ''let LR_COEF      = '' (out ! 3) = Some k \<and>
     out ! 4 = ''let LR_INTERCEPT  = '' @ float_repr rt (hd (intercepts p)) @ '';'' @ [CHR 0x0A] \<and>
     token (float_repr rt (hd (intercepts p))) \<and>
     element_count ''let LR_INTERCEPT  = '' (out ! 4) = None"
proof -
  from holds_pipeline_extract [OF assms(1,2)] obtain model where
    l: "path_exists w (PKL_PATH script)" "load_model rt w (PKL_PATH script) = Inr model"
      "extract_params model = Inr (params_of p)"
    by blast
  have "stdout (snd (main rt script argv w)) = stdout w @ report rt (params_of p)"
    by (rule stdout_main_loaded [OF l])
  then have out: "drop (length (stdout w)) (stdout (snd (main rt script argv w))) =
      report rt (params_of p)"
    by simp
  from assms(3) have t: "list_all token (map (float_repr rt) (means p))"
    "list_all token (map (float_repr rt) (scales p))"
    "list_all token (map (float_repr rt) (hd (coefs p)))"
    and b: "token (float_repr rt (hd (intercepts p)))"
    by (simp_all add: printed_floats_def list_all_iff)
  note n = well_formed_lengths [OF assms(2)]
  have 0: "length (report rt (params_of p)) = 5"
    by (simp add: report_def)
  have 1: "element_count ''let SCALER_MEAN  = '' (report rt (params_of p) ! 1) = Some k"
    using element_count_join [OF t(1), of "''let SCALER_MEAN  = ''" "'';'' @ [newline]"] n(1)
    by (simp add: report_params_of)
  have 2: "element_count ''let SCALER_SCALE = '' (report rt (params_of p) ! 2) = Some k"
    using element_count_join [OF t(2), of "''let SCALER_SCALE = ''" "'';'' @ [newline]"] n(2)
    by (simp add: report_params_of numeral_2_eq_2)
  have 3: "element_count ''let LR_COEF      = '' (report rt (params_of p) ! 3) = Some k"
    using element_count_join [OF t(3), of "''let LR_COEF      = ''" "'';'' @ [newline]"] n(3)
    by (simp add: report_params_of numeral_3_eq_3)
  have 4: "report rt (params_of p) ! 4 =
      ''let LR_INTERCEPT  = '' @ float_repr rt (hd (intercepts p)) @ '';'' @ [CHR 0x0A]"
    by (simp add: report_params_of newline_def eval_nat_numeral)
  have 5: "element_count ''let LR_INTERCEPT  = '' (report rt (params_of p) ! 4) = None"
    unfolding 4 using element_count_scalar [OF b, of "''let LR_INTERCEPT  = ''"]
    by (simp only: newline_def)
  from 0 1 2 3 4 5 b show ?thesis
    unfolding Let_def out by blast
qed

theorem printed_arrays_have_k_elements_witness:
  "length (stdout (snd (main example_runtime example_script [''extract_xg_model.py'']
      (world_with ''P'')))) = 5 \<and>
   stdout (snd (main example_runtime example_script [''extract_xg_model.py'']
      (world_with ''P''))) ! 1 = ''let SCALER_MEAN  = [0.1, 0.2, 0.3];'' @ [CHR 0x0A] \<and>
   element_count ''let SCALER_MEAN  = '' (stdout (snd (main example_runtime example_script
      [''extract_xg_model.py''] (world_with ''P''))) ! 1) = Some 3 \<and>
   element_count ''let SCALER_SCALE = '' (stdout (snd (main example_runtime example_script
      [''extract_xg_model.py''] (world_with ''P''))) ! 2) = Some 3 \<and>
   element_count ''let LR_COEF      = '' (stdout (snd (main example_runtime example_script
      [''extract_xg_model.py''] (world_with ''P''))) ! 3) = Some 3 \<and>
   stdout (snd (main example_runtime example_script [''extract_xg_model.py'']
      (world_with ''P''))) ! 4 = ''let LR_INTERCEPT  = -1.4;'' @ [CHR 0x0A] \<and>
   element_count ''let LR_INTERCEPT  = '' (stdout (snd (main example_runtime example_script
      [''extract_xg_model.py''] (world_with ''P''))) ! 4) = None"
proof -
  have d: "drop (length (stdout (world_with ''P''))) xs = xs" for xs :: "string list"
    by (simp add: world_with_def)
  note t = printed_arrays_have_k_elements [OF example_holds example_well_formed example_tokens,
      of "[''extract_xg_model.py'']", unfolded Let_def d]
  let ?out = "stdout (snd (main example_runtime example_script [''extract_xg_model.py'']
      (world_with ''P'')))"
  have o: "?out = report example_runtime (params_of example_pipeline)"
    using stdout_main_loaded [OF example_exists example_load example_extract,
        of "[''extract_xg_model.py'']"]
    by (simp add: world_with_def)
  have l1: "report example_runtime (params_of example_pipeline) ! 1 =
      ''let SCALER_MEAN  = [0.1, 0.2, 0.3];'' @ [CHR 0x0A]"
    by (simp add: report_params_of example_pipeline_def example_runtime_def newline_def)
  have f: "float_repr example_runtime (hd (intercepts example_pipeline)) = ''-1.4''"
    by (simp add: example_pipeline_def example_runtime_def)
  from t have 0: "length ?out = 5" by (rule conjunct1)
  have 1: "?out ! 1 = ''let SCALER_MEAN  = [0.1, 0.2, 0.3];'' @ [CHR 0x0A]"
    by (simp only: o l1)
  from t have 2: "element_count ''let SCALER_MEAN  = '' (?out ! 1) = Some 3" by blast
  from t have 3: "element_count ''let SCALER_SCALE = '' (?out ! 2) = Some 3" by blast
  from t have 4: "element_count ''let LR_COEF      = '' (?out ! 3) = Some 3" by blast
  from t have "?out ! 4 = ''let LR_INTERCEPT  = ''
      @ float_repr example_runtime (hd (intercepts example_pipeline)) @ '';'' @ [CHR 0x0A]"
    by blast
  then have 5: "?out ! 4 = ''let LR_INTERCEPT  = -1.4;'' @ [CHR 0x0A]"
    unfolding f by simp
  from t have 6: "element_count ''let LR_INTERCEPT  = '' (?out ! 4) = None" by blast
  from 0 1 2 3 4 5 6 show ?thesis by blast
qed

text \<open>
  Claim C6. Two runs that find the same file at the fixed path (the same entry, readable
  or not in both) and start with the same standard output end with the same standard
  output, text for text and so byte for byte, whatever their arguments and whatever else
  differs between the two states. When both runs have the flag and both return, the
  JSON file has the same content after each.
\<close>

theorem repeated_runs_identical:
  assumes "files w1 (PKL_PATH script) = files w2 (PKL_PATH script)"
    and "may_read w1 (PKL_PATH script) = may_read w2 (PKL_PATH script)"
    and "stdout w1 = stdout w2"
  shows "stdout (snd (main rt script argv1 w1)) = stdout (snd (main rt script argv2 w2)) \<and>
    concat (stdout (snd (main rt script argv1 w1))) =
      concat (stdout (snd (main rt script argv2 w2))) \<and>
    (''--json'' \<in> set argv1 \<and> ''--json'' \<in> set argv2 \<and>
     fst (main rt script argv1 w1) = Returned \<and> fst (main rt script argv2 w2) = Returned \<longrightarrow>
       files (snd (main rt script argv1 w1)) (json_path_of script) =
       files (snd (main rt script argv2 w2)) (json_path_of script))"
proof -
  have out: "stdout (snd (main rt script argv1 w1)) = stdout (snd (main rt script argv2 w2))"
    by (rule stdout_main_cong [OF assms])
  have js: "files (snd (main rt script argv1 w1)) (json_path_of script) =
       files (snd (main rt script argv2 w2)) (json_path_of script)"
    if f: "''--json'' \<in> set argv1" "''--json'' \<in> set argv2"
      and r: "fst (main rt script argv1 w1) = Returned" "fst (main rt script argv2 w2) = Returned"
  proof -
    from returned_loaded [OF r(1)] obtain model ps where
      l1: "path_exists w1 (PKL_PATH script)" "load_model rt w1 (PKL_PATH script) = Inr model"
        "extract_params model = Inr ps"
      by blast
    from returned_loaded [OF r(2)] have e2: "path_exists w2 (PKL_PATH script)" by simp
    from l1(2) load_model_cong [OF assms(1,2), of rt]
    have l2: "load_model rt w2 (PKL_PATH script) = Inr model" by simp
    show ?thesis
      by (simp add: main_flag_returned [OF l1 f(1) r(1)] main_flag_returned [OF e2 l2 l1(3) f(2) r(2)])
  qed
  from out js show ?thesis by simp
qed

theorem repeated_runs_identical_witness:
  "stdout (snd (main example_runtime example_script [''extract_xg_model.py'', ''--json'']
       (world_with ''P''))) =
   stdout (snd (main example_runtime example_script [''x.py'', ''--json'', ''--json'']
       (world_with ''P''))) \<and>
   concat (stdout (snd (main example_runtime example_script [''extract_xg_model.py'', ''--json'']
       (world_with ''P'')))) =
   concat (stdout (snd (main example_runtime example_script [''x.py'', ''--json'', ''--json'']
       (world_with ''P'')))) \<and>
   files (snd (main example_runtime example_script [''extract_xg_model.py'', ''--json'']
       (world_with ''P''))) (json_path_of example_script) =
   files (snd (main example_runtime example_script [''x.py'', ''--json'', ''--json'']
       (world_with ''P''))) (json_path_of example_script)"
proof -
  have f: "''--json'' \<in> set [''extract_xg_model.py'', ''--json'']"
    "''--json'' \<in> set [''x.py'', ''--json'', ''--json'']"
    by simp_all
  note t = repeated_runs_identical [OF refl refl refl,
      of example_runtime example_script "[''extract_xg_model.py'', ''--json'']" "world_with ''P''"
        "[''x.py'', ''--json'', ''--json'']"]
  from t f example_json_run [OF f(1)] example_json_run [OF f(2)] show ?thesis
    by blast
qed

text \<open>
  Claim C10. When the parameters have been extracted, the flag is given and the JSON file
  cannot be opened or the document does not fit, the run ends in an uncaught exception,
  and standard output holds all five lines all the same: they were printed before the
  file was opened. Nothing is printed to the diagnostic stream by the script.
\<close>

theorem stdout_complete_before_json:
  assumes "path_exists w (PKL_PATH script)"
    and "load_model rt w (PKL_PATH script) = Inr model"
    and "extract_params model = Inr ps"
    and "''--json'' \<in> set argv"
    and "\<not> can_write w (json_path_of script) (json_dump rt ps)"
  shows "(\<exists>e. fst (main rt script argv w) = Uncaught e) \<and>
    stdout (snd (main rt script argv w)) = stdout w @
      [banner @ [newline],
       ''let SCALER_MEAN  = '' @ py_str rt (scaler_mean ps) @ '';'' @ [newline],
       ''let SCALER_SCALE = '' @ py_str rt (scaler_scale ps) @ '';'' @ [newline],
       ''let LR_COEF      = '' @ py_str rt (lr_coef ps) @ '';'' @ [newline],
       ''let LR_INTERCEPT  = '' @ float_repr rt (lr_intercept ps) @ '';'' @ [newline]] \<and>
    stderr (snd (main rt script argv w)) = stderr w"
proof -
  from main_json_fails [OF assms] obtain e w' where
    "main rt script argv w = (Uncaught e, w')" "stdout w' = stdout w @ report rt ps"
    "stderr w' = stderr w"
    by blast
  then show ?thesis
    by (simp add: report_def)
qed

theorem stdout_complete_before_json_witness:
  "(\<exists>e. fst (main example_runtime example_script [''extract_xg_model.py'', ''--json'']
      read_only_world) = Uncaught e) \<and>
   stdout (snd (main example_runtime example_script [''extract_xg_model.py'', ''--json'']
      read_only_world)) =
     [banner @ [newline],
      ''let SCALER_MEAN  = [0.1, 0.2, 0.3];'' @ [newline],
      ''let SCALER_SCALE = [1.0, 1.1, 1.2];'' @ [newline],
      ''let LR_COEF      = [0.5, -0.3, 0.2];'' @ [newline],
      ''let LR_INTERCEPT  = -1.4;'' @ [newline]] \<and>
   files (snd (main example_runtime example_script [''extract_xg_model.py'', ''--json'']
      read_only_world)) (json_path_of example_script) = None"
proof -
  have f: "''--json'' \<in> set [''extract_xg_model.py'', ''--json'']" by simp
  note t = stdout_complete_before_json [OF read_only_facts(1,2) example_extract f read_only_facts(3)]
  have e: "stdout read_only_world = []"
    by (simp add: read_only_world_def world_with_def)
  have o: "open_w (read_only_world\<lparr>stdout := stdout read_only_world @
      report example_runtime (params_of example_pipeline)\<rparr>) (json_path_of example_script)
      = Inl PermissionError"
    by (simp add: open_w_def read_only_world_def world_with_def json_path_example)
  have n: "files (snd (main example_runtime example_script [''extract_xg_model.py'', ''--json'']
      read_only_world)) (json_path_of example_script) = None"
    by (simp add: main_loaded [OF read_only_facts(1,2) example_extract] o)
      (simp add: read_only_world_def world_with_def json_path_example)
  from t n show ?thesis
    by (simp add: e params_of_def example_pipeline_def example_runtime_def)
qed

subsection \<open>The missing file\<close>

text \<open>
  Claim C3. When there is no file at the fixed path, the script prints one message to
  the diagnostic stream, which holds the path it looked for, and exits with status 1.
  Standard output and the files are as before: nothing is printed there and no file is
  written.
\<close>

theorem missing_file_exit:
  assumes "files w (PKL_PATH script) = None"
  shows "main rt script argv w =
      (SystemExit 1,
       w\<lparr>stderr := stderr w @
         [''Error: '' @ str_path (PKL_PATH script)
            @ '' not found. Train the model first (see xGandShotmap.ipynb).'' @ [newline]]\<rparr>) \<and>
    exit_status (fst (main rt script argv w)) = 1 \<and>
    sublist (str_path (PKL_PATH script)) (last (stderr (snd (main rt script argv w)))) \<and>
    stdout (snd (main rt script argv w)) = stdout w \<and>
    files (snd (main rt script argv w)) = files w"
proof -
  have "\<not> path_exists w (PKL_PATH script)"
    using assms by (simp add: path_exists_def)
  then have m: "main rt script argv w =
      (SystemExit 1, print_stderr (missing_message (PKL_PATH script)) w)"
    by (rule main_missing)
  have "sublist (str_path (PKL_PATH script))
      (''Error: '' @ str_path (PKL_PATH script)
         @ ('' not found. Train the model first (see xGandShotmap.ipynb).'' @ [newline]))"
    by (rule sublist_appendI)
  then show ?thesis
    by (simp add: m print_stderr_def missing_message_def)
qed

theorem missing_file_exit_witness:
  "main example_runtime example_script [''extract_xg_model.py'', ''--json''] empty_world =
     (SystemExit 1,
      empty_world\<lparr>stderr :=
        [''Error: scripts/xg_model.pkl not found. Train the model first (see xGandShotmap.ipynb).''
           @ [newline]]\<rparr>) \<and>
   exit_status (fst (main example_runtime example_script [''extract_xg_model.py'', ''--json'']
     empty_world)) = 1 \<and>
   stdout (snd (main example_runtime example_script [''extract_xg_model.py'', ''--json'']
     empty_world)) = []"
proof -
  have f: "files empty_world (PKL_PATH example_script) = None"
    by (simp add: empty_world_def)
  have e: "stderr empty_world = []" "stdout empty_world = []"
    by (simp_all add: empty_world_def)
  from missing_file_exit [OF f, of example_runtime "[''extract_xg_model.py'', ''--json'']"]
  show ?thesis
    by (simp add: e PKL_example str_path_def)
qed

subsection \<open>The JSON file\<close>

text \<open>
  Claim C2. When the parameters have been extracted (as they are for every well-formed
  pipeline), the flag \<^verbatim>\<open>--json\<close> is anywhere among the arguments and the JSON file can be
  written, the run returns and leaves, in the directory of the pickle under the name
  \<^verbatim>\<open>xg_model_params.json\<close>, an indented document with exactly the four fields
  \<^verbatim>\<open>scaler_mean\<close>, \<^verbatim>\<open>scaler_scale\<close>, \<^verbatim>\<open>lr_coef\<close> and \<^verbatim>\<open>lr_intercept\<close>, in that order. The
  confirmation, which names that path, goes to the diagnostic stream; standard output
  gets the five lines and nothing else.
\<close>

theorem json_flag_writes_file:
  assumes "path_exists w (PKL_PATH script)"
    and "load_model rt w (PKL_PATH script) = Inr model"
    and "extract_params model = Inr ps"
    and "''--json'' \<in> set argv"
    and "can_write w (json_path_of script) (json_dump rt ps)"
  shows "fst (main rt script argv w) = Returned \<and>
    with_name (PKL_PATH script) ''xg_model_params.json'' = Inr (json_path_of script) \<and>
    json_path_of script = parent (PKL_PATH script) @ [''xg_model_params.json''] \<and>
    files (snd (main rt script argv w)) (json_path_of script) =
      Some (File
        (''{'' @ newline_indent 1 @ json_key ''scaler_mean'' @ '': ''
             @ json_value rt 1 (scaler_mean ps)
           @ '','' @ newline_indent 1 @ json_key ''scaler_scale'' @ '': ''
             @ json_value rt 1 (scaler_scale ps)
           @ '','' @ newline_indent 1 @ json_key ''lr_coef'' @ '': ''
             @ json_value rt 1 (lr_coef ps)
           @ '','' @ newline_indent 1 @ json_key ''lr_intercept'' @ '': ''
             @ floatstr rt (lr_intercept ps)
           @ newline_indent 0 @ ''}'')) \<and>
    stderr (snd (main rt script argv w)) = stderr w @
      [newline # ''Also wrote '' @ arrow @ '' '' @ str_path (json_path_of script) @ [newline]] \<and>
    stdout (snd (main rt script argv w)) = stdout w @ report rt ps"
proof -
  note m = main_json_ok [OF assms]
  have 1: "fst (main rt script argv w) = Returned"
    by (simp add: m)
  have 2: "with_name (PKL_PATH script) ''xg_model_params.json'' = Inr (json_path_of script)"
    by (simp add: with_name_PKL json_path_of_def)
  have 3: "json_path_of script = parent (PKL_PATH script) @ [''xg_model_params.json'']"
    by (simp add: json_path_of_def PKL_PATH_def parent_def joinpath_def)
  have 4: "files (snd (main rt script argv w)) (json_path_of script) =
      Some (File (json_dump rt ps))"
    by (simp add: m)
  have 5: "stderr (snd (main rt script argv w)) = stderr w @
      [newline # ''Also wrote '' @ arrow @ '' '' @ str_path (json_path_of script) @ [newline]]"
    by (simp add: m wrote_message_def)
  have 6: "stdout (snd (main rt script argv w)) = stdout w @ report rt ps"
    by (simp add: m)
  from 1 2 3 4 5 6 show ?thesis
    unfolding json_dump_text by blast
qed

theorem json_flag_writes_file_witness:
  "fst (main example_runtime example_script [''extract_xg_model.py'', ''--json'']
     (world_with ''P'')) = Returned \<and>
   files (snd (main example_runtime example_script [''extract_xg_model.py'', ''--json'']
     (world_with ''P''))) [''scripts'', ''xg_model_params.json''] = Some (File example_json) \<and>
   stderr (snd (main example_runtime example_script [''extract_xg_model.py'', ''--json'']
     (world_with ''P''))) =
     [newline # ''Also wrote '' @ arrow @ '' scripts/xg_model_params.json'' @ [newline]] \<and>
   stdout (snd (main example_runtime example_script [''extract_xg_model.py'', ''--json'']
     (world_with ''P''))) =
     [banner @ [newline],
      ''let SCALER_MEAN  = [0.1, 0.2, 0.3];'' @ [newline],
      ''let SCALER_SCALE = [1.0, 1.1, 1.2];'' @ [newline],
      ''let LR_COEF      = [0.5, -0.3, 0.2];'' @ [newline],
      ''let LR_INTERCEPT  = -1.4;'' @ [newline]]"
proof -
  have f: "''--json'' \<in> set [''extract_xg_model.py'', ''--json'']" by simp
  note t = json_flag_writes_file [OF example_exists example_load example_extract f
      example_can_write, folded json_dump_text, unfolded example_json_dump json_path_example]
  have e: "stdout (world_with ''P'') = []" "stderr (world_with ''P'') = []"
    by (simp_all add: world_with_def)
  have r: "report example_runtime (params_of example_pipeline) =
     [banner @ [newline],
      ''let SCALER_MEAN  = [0.1, 0.2, 0.3];'' @ [newline],
      ''let SCALER_SCALE = [1.0, 1.1, 1.2];'' @ [newline],
      ''let LR_COEF      = [0.5, -0.3, 0.2];'' @ [newline],
      ''let LR_INTERCEPT  = -1.4;'' @ [newline]]"
    by (simp add: report_params_of example_pipeline_def example_runtime_def)
  have p: "str_path [''scripts'', ''xg_model_params.json''] = ''scripts/xg_model_params.json''"
    by (simp add: str_path_def)
  from t show ?thesis
    by (simp add: e r p)
qed

text \<open>
  Claim C7. Without the flag among the arguments the files are left as they were, and
  nothing the run adds to the diagnostic stream is the confirmation of a written file,
  for any path.
\<close>

theorem no_flag_no_file:
  assumes "''--json'' \<notin> set argv"
  shows "files (snd (main rt script argv w)) = files w \<and>
    (\<forall>q. wrote_message q @ [newline]
       \<notin> set (drop (length (stderr w)) (stderr (snd (main rt script argv w)))))"
proof (cases "path_exists w (PKL_PATH script)")
  case False
  have "wrote_message q @ [newline] \<noteq> missing_message (PKL_PATH script) @ [newline]" for q
    by (simp add: wrote_message_def missing_message_def newline_def)
  then show ?thesis
    by (simp add: main_missing [OF False] print_stderr_def)
next
  case True
  show ?thesis
  proof (cases "load_model rt w (PKL_PATH script)")
    case (Inl e)
    show ?thesis by (simp add: main_load_fails [OF True Inl])
  next
    case (Inr model)
    show ?thesis
    proof (cases "extract_params model")
      case (Inl e)
      show ?thesis by (simp add: main_extract_fails [OF True Inr Inl])
    next
      case ps: (Inr ps)
      show ?thesis by (simp add: main_no_flag [OF True Inr ps assms])
    qed
  qed
qed

theorem no_flag_no_file_witness:
  "files (snd (main example_runtime example_script [''extract_xg_model.py''] (world_with ''P''))) =
     files (world_with ''P'') \<and>
   (\<forall>q. wrote_message q @ [newline]
       \<notin> set (drop (length (stderr (world_with ''P'')))
           (stderr (snd (main example_runtime example_script [''extract_xg_model.py'']
              (world_with ''P''))))))"
proof -
  have "''--json'' \<notin> set [''extract_xg_model.py'']" by simp
  then show ?thesis by (rule no_flag_no_file)
qed

text \<open>
  Claim C5. Round trip. Let the text of every float the script prints hold no delimiter,
  and let \<open>parse\<close> read it back as the float it came from (which \<^verbatim>\<open>float.__repr__\<close> is
  made for). Then a reader of the five lines finds exactly the values of the pipeline
  in the file: means, scales, the first row of coefficients and the first intercept.
  When the flag is given and the run returns, a reader of the JSON file finds the same
  values. Equality is exact here; floating point enters only through \<open>float_repr\<close> and
  \<open>parse\<close>.
\<close>

theorem round_trip:
  assumes "holds_pipeline rt script w p" and "well_formed k p"
    and "\<forall>x\<in>printed_floats p. reads_back rt parse x"
  shows "decode_stdout parse (drop (length (stdout w)) (stdout (snd (main rt script argv w)))) =
      Some (means p, scales p, hd (coefs p), hd (intercepts p)) \<and>
    (''--json'' \<in> set argv \<and> fst (main rt script argv w) = Returned \<longrightarrow>
       (\<exists>text. files (snd (main rt script argv w)) (json_path_of script) = Some (File text) \<and>
          decode_json parse text = Some (means p, scales p, hd (coefs p), hd (intercepts p))))"
proof -
  from holds_pipeline_extract [OF assms(1,2)] obtain model where
    l: "path_exists w (PKL_PATH script)" "load_model rt w (PKL_PATH script) = Inr model"
      "extract_params model = Inr (params_of p)"
    by blast
  have "stdout (snd (main rt script argv w)) = stdout w @ report rt (params_of p)"
    by (rule stdout_main_loaded [OF l])
  then have 1: "decode_stdout parse (drop (length (stdout w)) (stdout (snd (main rt script argv w))))
      = Some (means p, scales p, hd (coefs p), hd (intercepts p))"
    by (simp add: decode_stdout_report [OF assms(3)])
  have 2: "\<exists>text. files (snd (main rt script argv w)) (json_path_of script) = Some (File text) \<and>
      decode_json parse text = Some (means p, scales p, hd (coefs p), hd (intercepts p))"
    if "''--json'' \<in> set argv" "fst (main rt script argv w) = Returned"
    using main_flag_returned [OF l that] decode_json_dump [OF assms(3)] by simp
  from 1 2 show ?thesis by blast
qed

theorem round_trip_witness:
  "decode_stdout Some (stdout (snd (main example_runtime example_script
      [''extract_xg_model.py'', ''--json''] (world_with ''P'')))) =
     Some ([''0.1'', ''0.2'', ''0.3''], [''1.0'', ''1.1'', ''1.2''], [''0.5'', ''-0.3'', ''0.2''],
           ''-1.4'') \<and>
   files (snd (main example_runtime example_script [''extract_xg_model.py'', ''--json'']
     (world_with ''P''))) (json_path_of example_script) = Some (File example_json) \<and>
   decode_json Some example_json =
     Some ([''0.1'', ''0.2'', ''0.3''], [''1.0'', ''1.1'', ''1.2''], [''0.5'', ''-0.3'', ''0.2''],
           ''-1.4'')"
proof -
  have f: "''--json'' \<in> set [''extract_xg_model.py'', ''--json'']" by simp
  note t = round_trip [OF example_holds example_well_formed example_reads_back,
      of "[''extract_xg_model.py'', ''--json'']"]
  have e: "stdout (world_with ''P'') = []"
    by (simp add: world_with_def)
  from t have 1: "decode_stdout Some (stdout (snd (main example_runtime example_script
      [''extract_xg_model.py'', ''--json''] (world_with ''P'')))) =
     Some ([''0.1'', ''0.2'', ''0.3''], [''1.0'', ''1.1'', ''1.2''], [''0.5'', ''-0.3'', ''0.2''],
           ''-1.4'')"
    by (simp add: e example_pipeline_def)
  from t f example_json_run [OF f] example_json_file
  have 2: "decode_json Some example_json =
     Some ([''0.1'', ''0.2'', ''0.3''], [''1.0'', ''1.1'', ''1.2''], [''0.5'', ''-0.3'', ''0.2''],
           ''-1.4'')"
    by (simp add: example_pipeline_def)
  from 1 example_json_file 2 show ?thesis by blast
qed

subsection \<open>What is extracted\<close>

text \<open>
  Claim C9. The coefficients extracted are the first row of the coefficient matrix and
  the intercept extracted is the first element of the intercept vector. The other rows
  and intercepts play no part: a pipeline with the same scaler, the same first row and
  the same first intercept gives the same parameters, and no error is raised for the
  rows left out.
\<close>

theorem first_row_only:
  assumes "represents model p" and "well_formed k p"
    and "represents model' p'" and "well_formed k p'"
    and "means p' = means p" and "scales p' = scales p"
    and "hd (coefs p') = hd (coefs p)" and "hd (intercepts p') = hd (intercepts p)"
  shows "extract_params model =
      Inr \<lparr>scaler_mean = VList (map VFloat (means p)),
           scaler_scale = VList (map VFloat (scales p)),
           lr_coef = VList (map VFloat (hd (coefs p))),
           lr_intercept = hd (intercepts p)\<rparr> \<and>
    extract_params model' = extract_params model"
proof -
  from well_formed_nonempty [OF assms(2)]
  have 1: "extract_params model = Inr (params_of p)"
    by (intro extract_params_represents [OF assms(1)]) simp_all
  from well_formed_nonempty [OF assms(4)]
  have 2: "extract_params model' = Inr (params_of p')"
    by (intro extract_params_represents [OF assms(3)]) simp_all
  from 1 2 params_of_cong [OF assms(5-8)] show ?thesis
    by (simp add: params_of_def)
qed

theorem first_row_only_witness:
  "extract_params multiclass_model =
      Inr \<lparr>scaler_mean = VList [VFloat ''0.1'', VFloat ''0.2'', VFloat ''0.3''],
           scaler_scale = VList [VFloat ''1.0'', VFloat ''1.1'', VFloat ''1.2''],
           lr_coef = VList [VFloat ''0.5'', VFloat ''-0.3'', VFloat ''0.2''],
           lr_intercept = ''-1.4''\<rparr> \<and>
   extract_params example_model = extract_params multiclass_model"
proof -
  have "means example_pipeline = means multiclass_pipeline"
    "scales example_pipeline = scales multiclass_pipeline"
    "hd (coefs example_pipeline) = hd (coefs multiclass_pipeline)"
    "hd (intercepts example_pipeline) = hd (intercepts multiclass_pipeline)"
    by (simp_all add: example_pipeline_def multiclass_pipeline_def)
  from first_row_only [OF multiclass_represents multiclass_well_formed
      example_represents example_well_formed this]
  show ?thesis
    by (simp add: multiclass_pipeline_def)
qed

subsection \<open>Malformed files\<close>

text \<open>
  Claim C8, as stated, fails at this input: the file unpickles to a sequence of three
  elements (a scaler, a classifier and \<^verbatim>\<open>None\<close>), which is not a two-stage structure, yet
  the run returns with exit status 0 and prints the five lines.
\<close>

theorem three_stages_accepted:
  "files (world_with ''T'') (PKL_PATH example_script) = Some (File ''T'') \<and>
   pickle_load example_runtime ''T'' = Inr three_stage_model \<and>
   two_stages three_stage_model = None \<and>
   \<not> expected_structure three_stage_model \<and>
   main example_runtime example_script [''extract_xg_model.py''] (world_with ''T'') =
     (Returned,
      (world_with ''T'')\<lparr>stdout :=
        [banner @ [newline],
         ''let SCALER_MEAN  = [0.1, 0.2, 0.3];'' @ [newline],
         ''let SCALER_SCALE = [1.0, 1.1, 1.2];'' @ [newline],
         ''let LR_COEF      = [0.5, -0.3, 0.2];'' @ [newline],
         ''let LR_INTERCEPT  = -1.4;'' @ [newline]]\<rparr>) \<and>
   exit_status (fst (main example_runtime example_script [''extract_xg_model.py'']
     (world_with ''T''))) = 0"
proof -
  have 1: "files (world_with ''T'') (PKL_PATH example_script) = Some (File ''T'')"
    by (simp add: PKL_example world_with_def)
  have 2: "pickle_load example_runtime ''T'' = Inr three_stage_model"
    by (simp add: example_runtime_def)
  have 3: "two_stages three_stage_model = None"
    by (simp add: three_stage_model_def)
  then have 4: "\<not> expected_structure three_stage_model"
    by (simp add: expected_structure_def)
  have ex: "path_exists (world_with ''T'') (PKL_PATH example_script)"
    using 1 by (simp add: path_exists_def)
  have ld: "load_model example_runtime (world_with ''T'') (PKL_PATH example_script) =
      Inr three_stage_model"
    using 1 2 by (simp add: load_model_def open_rb_def) (simp add: world_with_def)
  have nf: "''--json'' \<notin> set [''extract_xg_model.py'']" by simp
  have 5: "main example_runtime example_script [''extract_xg_model.py''] (world_with ''T'') =
     (Returned,
      (world_with ''T'')\<lparr>stdout :=
        [banner @ [newline],
         ''let SCALER_MEAN  = [0.1, 0.2, 0.3];'' @ [newline],
         ''let SCALER_SCALE = [1.0, 1.1, 1.2];'' @ [newline],
         ''let LR_COEF      = [0.5, -0.3, 0.2];'' @ [newline],
         ''let LR_INTERCEPT  = -1.4;'' @ [newline]]\<rparr>)"
    by (simp add: main_no_flag [OF ex ld three_stage_extract nf] report_params_of)
      (simp add: world_with_def example_pipeline_def example_runtime_def)
  from 1 2 3 4 5 show ?thesis by simp
qed

text \<open>
  Claim C8, amended. When the file at the fixed path exists but is a directory or cannot
  be read, or does not unpickle, or unpickles to an object that does not begin with two
  instances exposing \<^verbatim>\<open>mean_\<close>, \<^verbatim>\<open>scale_\<close> and \<^verbatim>\<open>coef_\<close>, \<^verbatim>\<open>intercept_\<close>, the script
  detects nothing itself: an exception leaves \<^verbatim>\<open>main\<close> uncaught, the state is as it was
  (nothing printed by the script, no file written) and the exit status is 1.
\<close>

theorem malformed_file_uncaught:
  assumes "malformed rt script w"
  shows "(\<exists>e. main rt script argv w = (Uncaught e, w)) \<and>
    exit_status (fst (main rt script argv w)) = 1"
proof -
  have "\<exists>e. main rt script argv w = (Uncaught e, w)"
  proof (cases "files w (PKL_PATH script)")
    case None
    with assms show ?thesis by (simp add: malformed_def)
  next
    case (Some node)
    then have ex: "path_exists w (PKL_PATH script)"
      by (simp add: path_exists_def)
    show ?thesis
    proof (cases "load_model rt w (PKL_PATH script)")
      case (Inl e)
      from main_load_fails [OF ex Inl] show ?thesis by blast
    next
      case (Inr model)
      with assms Some have "\<not> leading_structure model"
        by (auto simp: malformed_def load_model_def open_rb_def
            split: node.splits if_splits sum.splits)
      from extract_params_fails [OF this] obtain e where "extract_params model = Inl e" ..
      from main_extract_fails [OF ex Inr this] show ?thesis by blast
    qed
  qed
  then show ?thesis by auto
qed

theorem malformed_file_uncaught_witness:
  "(\<exists>e. main example_runtime example_script [''extract_xg_model.py'', ''--json'']
        (world_with ''S'') = (Uncaught e, world_with ''S'')) \<and>
   exit_status (fst (main example_runtime example_script [''extract_xg_model.py'', ''--json'']
        (world_with ''S''))) = 1"
proof -
  have "malformed example_runtime example_script (world_with ''S'')"
    by (simp add: malformed_def PKL_example world_with_def example_runtime_def
        leading_structure_def one_stage_model_def)
  then show ?thesis by (rule malformed_file_uncaught)
qed

end
